theory Spec2Isabelle
  imports Complex_Main "HOL-Library.Sublist" "HOL-Library.Signed_Division"
begin

section \<open>Go values\<close>

text \<open>
  Go's \<^verbatim>\<open>int\<close> is modelled as a mathematical integer; on the 64-bit targets the
  service is built for, arithmetic wraps around modulo \<open>2^64\<close>, which \<open>wrapInt\<close>
  writes out wherever the source adds. (The README's own sample response sums six
  values above \<open>2^30\<close>, so a 32-bit \<^verbatim>\<open>int\<close> is not the intended target.)
\<close>

definition wrapInt :: "int \<Rightarrow> int" where
  "wrapInt x = (x + 2 ^ 63) mod 2 ^ 64 - 2 ^ 63"

text \<open>
  A Go function returning \<^verbatim>\<open>(T, error)\<close> becomes a value of \<open>error + T\<close>.
  \<open>Errorf m\<close> is the error built by \<^verbatim>\<open>fmt.Errorf\<close> whose \<^verbatim>\<open>Error()\<close> text is
  \<open>m\<close> (a wrapped error \<^verbatim>\<open>%w\<close> contributes its own text); \<open>Panic\<close> is a run-time
  panic, which no caller in this program recovers.
\<close>

datatype error = Errorf string | Panic string

subsection \<open>Formatting and parsing integers\<close>

definition digitChar :: "nat \<Rightarrow> char" where
  "digitChar n = ''0123456789'' ! n"

fun showNat :: "nat \<Rightarrow> string" where
  "showNat n = (if n < 10 then [digitChar n] else showNat (n div 10) @ [digitChar (n mod 10)])"

declare showNat.simps [simp del]

text \<open>The verb \<^verbatim>\<open>%d\<close> of \<^verbatim>\<open>fmt\<close>.\<close>

definition showInt :: "int \<Rightarrow> string" where
  "showInt i = (if i < 0 then CHR ''-'' # showNat (nat (- i)) else showNat (nat i))"

text \<open>\<^verbatim>\<open>strings.Contains(s, substr)\<close>.\<close>

definition Contains :: "string \<Rightarrow> string \<Rightarrow> bool" where
  "Contains s substr = sublist substr s"

text \<open>\<^verbatim>\<open>strings.Split(s, sep)\<close> for a one-character separator; the empty string splits
  into one empty part.\<close>

fun Split :: "string \<Rightarrow> char \<Rightarrow> string list" where
  "Split [] sep = [[]]"
| "Split (c # cs) sep =
     (if c = sep then [] # Split cs sep
      else (case Split cs sep of [] \<Rightarrow> [[c]] | p # ps \<Rightarrow> (c # p) # ps))"

text \<open>\<^verbatim>\<open>strings.TrimPrefix\<close>.\<close>

definition TrimPrefix :: "string \<Rightarrow> string \<Rightarrow> string" where
  "TrimPrefix s pre = (if prefix pre s then drop (length pre) s else s)"

text \<open>
  \<^verbatim>\<open>strconv.Atoi\<close>: an optional sign, then one or more decimal digits and nothing else,
  denoting a value that fits the 64-bit \<^verbatim>\<open>int\<close>; \<open>None\<close> is a non-nil error.
\<close>

definition digitValue :: "char \<Rightarrow> nat option" where
  "digitValue ch =
     (if (48::nat) \<le> of_char ch \<and> of_char ch \<le> (57::nat) then Some (of_char ch - 48) else None)"

fun parseDigits :: "nat \<Rightarrow> string \<Rightarrow> nat option" where
  "parseDigits n [] = Some n"
| "parseDigits n (ch # s) =
     (case digitValue ch of None \<Rightarrow> None | Some d \<Rightarrow> parseDigits (n * 10 + d) s)"

definition Atoi :: "string \<Rightarrow> int option" where
  "Atoi s0 =
     (let neg = (s0 \<noteq> [] \<and> hd s0 = CHR ''-'');
          s = (if s0 \<noteq> [] \<and> (hd s0 = CHR ''-'' \<or> hd s0 = CHR ''+'') then tl s0 else s0)
      in if s = [] then None
         else (case parseDigits 0 s of
             None \<Rightarrow> None
           | Some n \<Rightarrow>
               (let v = (if neg then - int n else int n)
                in if v < - (2 ^ 63) \<or> 2 ^ 63 - 1 < v then None else Some v)))"

text \<open>\<^verbatim>\<open>regexp.MatchString("^[A-Z]{2}$", countryCode)\<close>.\<close>

definition isUpperAZ :: "char \<Rightarrow> bool" where
  "isUpperAZ ch = ((65::nat) \<le> of_char ch \<and> of_char ch \<le> (90::nat))"

definition matchISO2 :: "string \<Rightarrow> bool" where
  "matchISO2 countryCode = (length countryCode = 2 \<and> list_all isUpperAZ countryCode)"

subsection \<open>Upstream calls\<close>

text \<open>
  What one outbound HTTP call can yield, as the code tells the cases apart: the request
  could not be built (\<^verbatim>\<open>http.NewRequest\<close>, \<^verbatim>\<open>json.Marshal\<close>), the transport failed, or a
  response arrived with a status code and a body. The body is only consumed after the
  status check: reading it can fail, decoding it into the call site's target type can
  fail, or it decodes to a value of that type. The strings are the \<^verbatim>\<open>Error()\<close> texts
  of the library errors.
\<close>

datatype 'a body = ReadError string | DecodeError string | Decoded 'a

datatype 'a http = RequestError string | TransportError string | Response int "'a body"

text \<open>
  A decoded \<^verbatim>\<open>interface{}\<close> JSON value. An object is a Go map, kept as an association
  list read with \<open>map_of\<close>; numbers are \<^verbatim>\<open>float64\<close>.
\<close>

datatype json = JNull | JBool bool | JNum real | JStr string | JArr "json list"
  | JObj "(string \<times> json) list"

type_synonym jobject = "(string \<times> json) list"

record PopulationCount =
  Year :: int
  Value :: int

record PopulationData =
  Country :: string
  Code :: string
  Iso3 :: string
  PopulationCounts :: "PopulationCount list option"

text \<open>
  \<^verbatim>\<open>ApiResponse\<close>: the population provider's answer. \<open>PopulationCounts\<close> is a Go slice
  that stays \<^verbatim>\<open>nil\<close> (\<open>None\<close>) when the JSON has no such array.
\<close>

record ApiResponse =
  Error :: bool
  Msg :: string
  Data :: PopulationData

text \<open>The anonymous struct \<^verbatim>\<open>FetchCities\<close> decodes into: \<^verbatim>\<open>Error\<close> and \<^verbatim>\<open>Cities\<close>
  (JSON \<^verbatim>\<open>data\<close>), renamed apart from the other records' fields.\<close>

record CitiesApiResponse =
  CitiesError :: bool
  CitiesData :: "string list"

text \<open>
  The world outside the process, one field per call site. Each maps the request (the URL
  of a GET, the country name a POST body is built from) to the outcome of the call with
  the body decoded into that call site's target type: \<^verbatim>\<open>[]map[string]interface{}\<close> in
  \<^verbatim>\<open>FetchCountryInfo\<close>, \<^verbatim>\<open>CountryNameResponse\<close> (the list of \<^verbatim>\<open>name.common\<close> strings) in
  \<^verbatim>\<open>FetchCountryName\<close>, and so on. \<open>currentYear\<close> is \<^verbatim>\<open>time.Now().Year()\<close> and
  \<open>uptimeSeconds\<close> is \<^verbatim>\<open>int(time.Since(startTime).Seconds())\<close>. Two functions of Go's
  standard library are taken as they come: \<open>StatusText\<close> (\<^verbatim>\<open>http.StatusText\<close>) and
  \<open>ToUpper\<close> (\<^verbatim>\<open>strings.ToUpper\<close>, which also maps letters outside ASCII). So is
  \<open>hugeFloatToInt\<close>: what the conversion \<^verbatim>\<open>int(f)\<close> yields for a \<^verbatim>\<open>float64\<close> whose integer
  part does not fit \<^verbatim>\<open>int\<close>, which Go leaves to the implementation.
\<close>

record world =
  getCountryData :: "string \<Rightarrow> jobject list http"
  getCountryName :: "string \<Rightarrow> string list http"
  postCities :: "string \<Rightarrow> CitiesApiResponse http"
  postPopulation :: "string \<Rightarrow> ApiResponse http"
  getHealth :: "string \<Rightarrow> unit http"
  currentYear :: int
  uptimeSeconds :: int
  StatusText :: "int \<Rightarrow> string"
  ToUpper :: "string \<Rightarrow> string"
  hugeFloatToInt :: "real \<Rightarrow> int"

section \<open>utils: population data\<close>

record PopulationResponse =
  Mean :: int
  Values :: "PopulationCount list"

definition FetchCountryName :: "world \<Rightarrow> string \<Rightarrow> error + string" where
  "FetchCountryName w iso2 =
     (let url = ''http://129.241.150.113:8080/v3.1/alpha/'' @ iso2 in
      case getCountryName w url of
        RequestError err \<Rightarrow> Inl (Errorf (''failed to fetch country name: '' @ err))
      | TransportError err \<Rightarrow> Inl (Errorf (''failed to fetch country name: '' @ err))
      | Response StatusCode respBody \<Rightarrow>
          if StatusCode \<noteq> 200
          then Inl (Errorf (''country API returned status '' @ showInt StatusCode))
          else (case respBody of
              ReadError err \<Rightarrow> Inl (Errorf (''failed to read country API response: '' @ err))
            | DecodeError err \<Rightarrow>
                Inl (Errorf (''failed to decode country API response: '' @ err))
            | Decoded countryData \<Rightarrow>
                (case countryData of
                  [] \<Rightarrow> Inl (Errorf (''invalid country name received for ISO2 code: '' @ iso2))
                | common # _ \<Rightarrow>
                    if common = ''''
                    then Inl (Errorf (''invalid country name received for ISO2 code: '' @ iso2))
                    else Inr common)))"

text \<open>
  The filtering loop of \<^verbatim>\<open>FetchPopulationData\<close>, with its three loop variables
  \<^verbatim>\<open>filteredCounts\<close>, \<^verbatim>\<open>total\<close> (here \<open>total'\<close>) and \<^verbatim>\<open>count\<close> as the accumulator.
\<close>

fun filterLoop ::
  "int \<Rightarrow> int \<Rightarrow> PopulationCount list \<Rightarrow> PopulationCount list \<times> int \<times> int
     \<Rightarrow> PopulationCount list \<times> int \<times> int" where
  "filterLoop startYear endYear [] acc = acc"
| "filterLoop startYear endYear (entry # rest) (filteredCounts, total', count) =
     (if (startYear = 0 \<or> Year entry \<ge> startYear) \<and> (endYear = 0 \<or> Year entry \<le> endYear)
      then filterLoop startYear endYear rest
             (filteredCounts @ [entry], wrapInt (total' + Value entry), wrapInt (count + 1))
      else filterLoop startYear endYear rest (filteredCounts, total', count))"

definition FetchPopulationData :: "world \<Rightarrow> string \<Rightarrow> int \<Rightarrow> int \<Rightarrow> error + PopulationResponse" where
  "FetchPopulationData w iso2 startYear endYear =
     (if startYear > endYear \<and> endYear \<noteq> 0
      then Inl (Errorf (''invalid year range: startYear ('' @ showInt startYear
                  @ '') cannot be greater than endYear ('' @ showInt endYear @ '')''))
      else case FetchCountryName w iso2 of
        Inl (Errorf err) \<Rightarrow> Inl (Errorf (''failed to get country name: '' @ err))
      | Inl (Panic p) \<Rightarrow> Inl (Panic p)
      | Inr countryName \<Rightarrow>
         (case postPopulation w countryName of
            RequestError err \<Rightarrow> Inl (Errorf (''failed to create JSON request: '' @ err))
          | TransportError err \<Rightarrow> Inl (Errorf (''failed to send request: '' @ err))
          | Response StatusCode respBody \<Rightarrow>
              if StatusCode \<noteq> 200
              then Inl (Errorf (''population API returned status '' @ showInt StatusCode))
              else (case respBody of
                  ReadError err \<Rightarrow>
                    Inl (Errorf (''failed to read Population API response: '' @ err))
                | DecodeError err \<Rightarrow>
                    Inl (Errorf (''failed to decode Population API response: '' @ err))
                | Decoded apiResponse \<Rightarrow>
                    if Error apiResponse
                    then Inl (Errorf (''population API returned an error: '' @ Msg apiResponse))
                    else (case PopulationCounts (Data apiResponse) of
                        None \<Rightarrow>
                          Inl (Errorf (''no population data found for country: '' @ countryName))
                      | Some populationData \<Rightarrow>
                          (case filterLoop startYear endYear populationData ([], 0, 0) of
                            (filteredCounts, total', count) \<Rightarrow>
                              Inr \<lparr>Mean = (if count > 0 then total' sdiv count else 0),
                                   Values = filteredCounts\<rparr>)))))"

section \<open>utils: country information\<close>

record CountryInfoResponse =
  Name :: string
  Continent :: string
  Population :: int
  Languages :: "string \<rightharpoonup> string"
  Borders :: "string list"
  Flag :: string
  Capital :: string
  Cities :: "string list"

text \<open>
  \<^verbatim>\<open>extractString(data, keys...)\<close>: the outer loop runs over \<open>keys\<close>; where \<open>data[key]\<close> is
  an object the inner loop runs over all of \<open>keys\<close> again, inside that object; otherwise
  \<open>data[key]\<close> itself is returned when it is a string.
\<close>

fun extractNested :: "jobject \<Rightarrow> string list \<Rightarrow> string option" where
  "extractNested nestedMap [] = None"
| "extractNested nestedMap (nestedKey # ks) =
     (case map_of nestedMap nestedKey of
        Some (JStr strValue) \<Rightarrow> Some strValue
      | _ \<Rightarrow> extractNested nestedMap ks)"

fun extractLoop :: "jobject \<Rightarrow> string list \<Rightarrow> string list \<Rightarrow> string option" where
  "extractLoop data' keys [] = None"
| "extractLoop data' keys (key # ks) =
     (case map_of data' key of
        Some (JObj nestedMap) \<Rightarrow>
          (case extractNested nestedMap keys of
             Some strValue \<Rightarrow> Some strValue
           | None \<Rightarrow> extractLoop data' keys ks)
      | Some (JStr strValue) \<Rightarrow> Some strValue
      | _ \<Rightarrow> extractLoop data' keys ks)"

definition extractString :: "jobject \<Rightarrow> string list \<Rightarrow> string \<times> bool" where
  "extractString data' keys =
     (case extractLoop data' keys keys of
        Some strValue \<Rightarrow> (strValue, True)
      | None \<Rightarrow> ([], False))"

fun stringItems :: "json list \<Rightarrow> string list" where
  "stringItems [] = []"
| "stringItems (JStr strItem # arr) = strItem # stringItems arr"
| "stringItems (_ # arr) = stringItems arr"

definition extractStringArray :: "jobject \<Rightarrow> string \<Rightarrow> string list" where
  "extractStringArray data' key =
     (case map_of data' key of Some (JArr arr) \<Rightarrow> stringItems arr | _ \<Rightarrow> [])"

definition FetchCities :: "world \<Rightarrow> string \<Rightarrow> int \<Rightarrow> error + string list" where
  "FetchCities w countryName limit =
     (case postCities w countryName of
        RequestError err \<Rightarrow> Inl (Errorf (''failed to create request: '' @ err))
      | TransportError err \<Rightarrow> Inl (Errorf (''failed to fetch cities: '' @ err))
      | Response StatusCode respBody \<Rightarrow>
          if StatusCode \<noteq> 200
          then Inl (Errorf (''cities API returned status '' @ showInt StatusCode))
          else (case respBody of
              ReadError err \<Rightarrow> Inl (Errorf (''failed to read response: '' @ err))
            | DecodeError err \<Rightarrow> Inl (Errorf (''failed to parse cities API response: '' @ err))
            | Decoded apiResponse \<Rightarrow>
                if CitiesError apiResponse
                then Inl (Errorf (''error fetching cities for country: '' @ countryName))
                else if int (length (CitiesData apiResponse)) > limit
                then (if limit < 0 then Inl (Panic ''slice bounds out of range'')
                      else Inr (take (nat limit) (CitiesData apiResponse)))
                else Inr (CitiesData apiResponse)))"

text \<open>
  The field extractions of \<^verbatim>\<open>FetchCountryInfo\<close>, each named after the local variable it
  computes. The conversion \<^verbatim>\<open>int(pop)\<close> of a \<^verbatim>\<open>float64\<close> drops the fraction when the
  result fits the 64-bit \<^verbatim>\<open>int\<close>; otherwise its value is the implementation's.
\<close>

definition floatToInt :: "world \<Rightarrow> real \<Rightarrow> int" where
  "floatToInt w pop =
     (let n = (if pop < 0 then \<lceil>pop\<rceil> else \<lfloor>pop\<rfloor>)
      in if - (2 ^ 63) \<le> n \<and> n < 2 ^ 63 then n else hugeFloatToInt w pop)"

definition region :: "jobject \<Rightarrow> string" where
  "region country = (case map_of country ''region'' of Some (JStr r) \<Rightarrow> r | _ \<Rightarrow> ''Unknown'')"

definition languages :: "jobject \<Rightarrow> (string \<rightharpoonup> string)" where
  "languages country =
     (case map_of country ''languages'' of
        Some (JObj langs) \<Rightarrow>
          (\<lambda>abbr. case map_of langs abbr of Some (JStr langName) \<Rightarrow> Some langName | _ \<Rightarrow> None)
      | _ \<Rightarrow> Map.empty)"

definition capital :: "jobject \<Rightarrow> string" where
  "capital country =
     (case map_of country ''capital'' of
        Some (JArr (JStr capStr # _)) \<Rightarrow> capStr
      | _ \<Rightarrow> ''N/A'')"

definition population :: "world \<Rightarrow> jobject \<Rightarrow> int" where
  "population w country =
     (case map_of country ''population'' of Some (JNum pop) \<Rightarrow> floatToInt w pop | _ \<Rightarrow> 0)"

definition FetchCountryInfo :: "world \<Rightarrow> string \<Rightarrow> int \<Rightarrow> error + CountryInfoResponse" where
  "FetchCountryInfo w countryCode limit =
     (let url = ''http://129.241.150.113:8080/v3.1/alpha/'' @ countryCode in
      case getCountryData w url of
        RequestError err \<Rightarrow> Inl (Errorf (''failed to fetch country data: '' @ err))
      | TransportError err \<Rightarrow> Inl (Errorf (''failed to fetch country data: '' @ err))
      | Response StatusCode respBody \<Rightarrow>
          if StatusCode \<noteq> 200
          then Inl (Errorf (''API returned status '' @ showInt StatusCode))
          else (case respBody of
              ReadError err \<Rightarrow> Inl (Errorf (''failed to decode country API response: '' @ err))
            | DecodeError err \<Rightarrow>
                Inl (Errorf (''failed to decode country API response: '' @ err))
            | Decoded data' \<Rightarrow>
                (case data' of
                  [] \<Rightarrow> Inl (Errorf (''no data found for country code: '' @ countryCode))
                | country # _ \<Rightarrow>
                    (case extractString country [''name'', ''common''] of
                      (name, ok) \<Rightarrow>
                        if \<not> ok then Inl (Errorf ''country name not found'')
                        else (case
                            (case FetchCities w name limit of
                               Inl (Errorf err) \<Rightarrow> Inr [''City data not available'']
                             | Inl (Panic p) \<Rightarrow> Inl (Panic p)
                             | Inr cities \<Rightarrow> Inr cities)
                          of
                            Inl e \<Rightarrow> Inl e
                          | Inr cities \<Rightarrow>
                              Inr \<lparr>Name = name,
                                   Continent = region country,
                                   Population = population w country,
                                   Languages = languages country,
                                   Borders = extractStringArray country ''borders'',
                                   Flag = fst (extractString country [''flags'', ''svg'']),
                                   Capital = capital country,
                                   Cities = cities\<rparr>)))))"

section \<open>handlers\<close>

text \<open>
  What a handler leaves on the wire: \<open>HttpError msg code\<close> is \<^verbatim>\<open>http.Error(w, msg, code)\<close>,
  \<open>JsonBody v\<close> is the JSON encoding of \<open>v\<close> under the implicit status 200, and \<open>Aborted\<close>
  is a handler that panicked. A request is its \<^verbatim>\<open>r.URL.Path\<close> and the value of
  \<^verbatim>\<open>r.URL.Query().Get("limit")\<close>, empty when the parameter is absent.
\<close>

datatype 'a response = HttpError string int | JsonBody 'a | Aborted string

fun statusOf :: "'a response \<Rightarrow> int option" where
  "statusOf (HttpError msg code) = Some code"
| "statusOf (JsonBody v) = Some 200"
| "statusOf (Aborted p) = None"

record request =
  Path :: string
  LimitParam :: string

text \<open>
  The tail of \<^verbatim>\<open>CountryInfoHandler\<close>: what it writes for the outcome of
  \<^verbatim>\<open>utils.FetchCountryInfo\<close>, telling the error types apart by their text.
\<close>

definition countryInfoReply :: "error + CountryInfoResponse \<Rightarrow> CountryInfoResponse response" where
  "countryInfoReply outcome =
     (case outcome of
        Inl (Panic p) \<Rightarrow> Aborted p
      | Inl (Errorf err) \<Rightarrow>
          if Contains err ''not found''
          then HttpError ''country not found in the database.'' 404
          else if Contains err ''API request failed''
          then HttpError ''failed to retrieve data from the external API.'' 502
          else HttpError ''internal server error while fetching data.'' 500
      | Inr info \<Rightarrow> JsonBody info)"

definition CountryInfoHandler :: "world \<Rightarrow> request \<Rightarrow> CountryInfoResponse response" where
  "CountryInfoHandler w r =
     (let parts = Split (Path r) CHR ''/'' in
      if length parts < 5
      then HttpError ''missing country code. Example: /countryinfo/v1/info/no'' 400
      else
       (let countryCode = ToUpper w (parts ! 4) in
        if \<not> matchISO2 countryCode
        then HttpError
               ''invalid country code. Use a valid ISO2 format (e.g., 'NO', 'US')'' 400
        else (case
            (if LimitParam r \<noteq> []
             then (case Atoi (LimitParam r) of
                     None \<Rightarrow> None
                   | Some parsedLimit \<Rightarrow> if parsedLimit \<le> 0 then None else Some parsedLimit)
             else Some 10)
          of
            None \<Rightarrow> HttpError ''invalid 'limit' parameter. Must be a positive integer.'' 400
          | Some limit \<Rightarrow> countryInfoReply (FetchCountryInfo w countryCode limit))))"

text \<open>
  The block of \<^verbatim>\<open>PopulationHandler\<close> that reads the \<^verbatim>\<open>limit\<close> parameter: either the
  400 response it writes before returning, or the pair \<^verbatim>\<open>startYear, endYear\<close>.
\<close>

definition yearRange :: "world \<Rightarrow> string \<Rightarrow> PopulationResponse response + int \<times> int" where
  "yearRange w limitParam =
     (if limitParam \<noteq> []
      then
       (let years = Split limitParam CHR ''-'' in
        if length years = 2
        then (case (Atoi (years ! 0), Atoi (years ! 1)) of
            (Some startYear, Some endYear) \<Rightarrow>
              if startYear < 1900 \<or> endYear > currentYear w
              then Inl (HttpError (''Year range out of bounds. Use years between 1900 and ''
                          @ showInt (currentYear w) @ ''.'') 400)
              else Inr (startYear, endYear)
          | _ \<Rightarrow>
              Inl (HttpError (''Invalid 'limit' format. Use 'startYear-endYear' with numeric ''
                     @ ''values (e.g., '2000-2020').'') 400))
        else Inl (HttpError ''Invalid 'limit' format. Use 'startYear-endYear'.'' 400))
      else Inr (0, 0))"

text \<open>
  The tail of \<^verbatim>\<open>PopulationHandler\<close>: what it writes for the outcome of
  \<^verbatim>\<open>utils.FetchPopulationData\<close>.
\<close>

definition populationReply :: "error + PopulationResponse \<Rightarrow> PopulationResponse response" where
  "populationReply outcome =
     (case outcome of
        Inl (Panic p) \<Rightarrow> Aborted p
      | Inl (Errorf err) \<Rightarrow>
          if Contains err ''not found''
          then HttpError ''Population data not found for the given country or year range.'' 404
          else if Contains err ''API request failed''
          then HttpError ''Failed to retrieve data from the external API.'' 502
          else HttpError ''Internal server error while fetching population data.'' 500
      | Inr data' \<Rightarrow> JsonBody data')"

definition PopulationHandler :: "world \<Rightarrow> request \<Rightarrow> PopulationResponse response" where
  "PopulationHandler w r =
     (let parts = Split (TrimPrefix (Path r) ''/countryinfo/v1/population/'') CHR ''/'' in
      if length parts < 1 \<or> parts ! 0 = []
      then HttpError ''Missing country code. Example: /countryinfo/v1/population/NO'' 400
      else
       (let countryCode = ToUpper w (parts ! 0) in
        if \<not> matchISO2 countryCode
        then HttpError
               ''Invalid country code. Use a valid ISO2 format (e.g., 'NO', 'US')'' 400
        else (case yearRange w (LimitParam r) of
            Inl resp \<Rightarrow> resp
          | Inr (startYear, endYear) \<Rightarrow>
              populationReply (FetchPopulationData w countryCode startYear endYear))))"

record APIStatus =
  CountriesNowAPI :: string
  RestCountriesAPI :: string
  Version :: string
  Uptime :: int

definition checkAPIHealth :: "world \<Rightarrow> string \<Rightarrow> string" where
  "checkAPIHealth w url =
     (case getHealth w url of
        RequestError err \<Rightarrow> ''FAILED''
      | TransportError err \<Rightarrow> ''FAILED''
      | Response StatusCode respBody \<Rightarrow>
          if StatusCode \<noteq> 200 then ''ERROR '' @ StatusText w StatusCode else ''200'')"

definition StatusHandler :: "world \<Rightarrow> request \<Rightarrow> APIStatus response" where
  "StatusHandler w r =
     (let uptime = uptimeSeconds w;
          countriesNowStatus = checkAPIHealth w ''http://129.241.150.113:3500/api/v0.1/countries'';
          restCountriesStatus = checkAPIHealth w ''http://129.241.150.113:8080/v3.1/all''
      in JsonBody \<lparr>CountriesNowAPI = countriesNowStatus,
                   RestCountriesAPI = restCountriesStatus,
                   Version = ''v1'',
                   Uptime = uptime\<rparr>)"

section \<open>Reference notions and sample worlds\<close>

text \<open>
  The window of a population report in the specification's words: a record is inside
  when its year lies between the two bounds, a bound of 0 leaving its side open.
\<close>

definition inWindow :: "int \<Rightarrow> int \<Rightarrow> PopulationCount \<Rightarrow> bool" where
  "inWindow startYear endYear r =
     ((startYear = 0 \<or> startYear \<le> Year r) \<and> (endYear = 0 \<or> Year r \<le> endYear))"

text \<open>Upper-casing of ASCII letters, for the sample worlds.\<close>

definition asciiUpper :: "string \<Rightarrow> string" where
  "asciiUpper s =
     map (\<lambda>c. case map_of (zip ''abcdefghijklmnopqrstuvwxyz'' ''ABCDEFGHIJKLMNOPQRSTUVWXYZ'') c of
               Some u \<Rightarrow> u
             | None \<Rightarrow> c) s"

text \<open>A world in which every upstream refuses the connection.\<close>

definition offline :: world where
  "offline =
     \<lparr>getCountryData = (\<lambda>url. TransportError ''connection refused''),
      getCountryName = (\<lambda>url. TransportError ''connection refused''),
      postCities = (\<lambda>countryName. TransportError ''connection refused''),
      postPopulation = (\<lambda>countryName. TransportError ''connection refused''),
      getHealth = (\<lambda>url. TransportError ''connection refused''),
      currentYear = 2025,
      uptimeSeconds = 128,
      StatusText = (\<lambda>code. if code = 404 then ''Not Found'' else []),
      ToUpper = asciiUpper,
      hugeFloatToInt = (\<lambda>pop. - (2 ^ 63))\<rparr>"

definition populationAnswer :: "string \<Rightarrow> PopulationCount list option \<Rightarrow> ApiResponse" where
  "populationAnswer countryName counts =
     \<lparr>Error = False, Msg = countryName @ '' with population'',
      Data = \<lparr>Country = countryName, Code = [], Iso3 = [], PopulationCounts = counts\<rparr>\<rparr>"

text \<open>The README's request \<^verbatim>\<open>/countryinfo/v1/population/in?limit=2010-2015\<close>: India's
  history, with one year on either side of the window.\<close>

definition indiaHistory :: "PopulationCount list" where
  "indiaHistory =
     [\<lparr>Year = 2009, Value = 1217726215\<rparr>,
      \<lparr>Year = 2010, Value = 1234281170\<rparr>,
      \<lparr>Year = 2011, Value = 1250288729\<rparr>,
      \<lparr>Year = 2012, Value = 1265782790\<rparr>,
      \<lparr>Year = 2013, Value = 1280846129\<rparr>,
      \<lparr>Year = 2014, Value = 1295604184\<rparr>,
      \<lparr>Year = 2015, Value = 1310152403\<rparr>,
      \<lparr>Year = 2016, Value = 1324517249\<rparr>]"

definition indiaWorld :: world where
  "indiaWorld =
     offline
       \<lparr>getCountryName :=
          (\<lambda>url. if url = ''http://129.241.150.113:8080/v3.1/alpha/IN''
                  then Response 200 (Decoded [''India''])
                  else Response 404 (Decoded [])),
        postPopulation :=
          (\<lambda>countryName. Response 200 (Decoded (populationAnswer countryName (Some indiaHistory))))\<rparr>"

text \<open>A history of two records of \<open>2^62\<close> each: their sum does not fit a 64-bit \<^verbatim>\<open>int\<close>.\<close>

definition hugeHistory :: "PopulationCount list" where
  "hugeHistory =
     [\<lparr>Year = 2000, Value = 4611686018427387904\<rparr>,
      \<lparr>Year = 2001, Value = 4611686018427387904\<rparr>]"

definition hugeWorld :: world where
  "hugeWorld =
     offline
       \<lparr>getCountryName := (\<lambda>url. Response 200 (Decoded [''India''])),
        postPopulation :=
          (\<lambda>countryName. Response 200 (Decoded (populationAnswer countryName (Some hugeHistory))))\<rparr>"

text \<open>Norway's record at the metadata provider, and the first cities the cities provider
  lists for it.\<close>

definition norway :: jobject where
  "norway =
     [(''name'', JObj [(''common'', JStr ''Norway''), (''official'', JStr ''Kingdom of Norway'')]),
      (''region'', JStr ''Europe''),
      (''borders'', JArr [JStr ''FIN'', JStr ''SWE'', JStr ''RUS'']),
      (''languages'', JObj [(''nno'', JStr ''Norwegian Nynorsk''), (''smi'', JStr ''Sami'')]),
      (''flags'', JObj [(''png'', JStr ''https://flagcdn.com/w320/no.png''),
                        (''svg'', JStr ''https://flagcdn.com/no.svg'')]),
      (''capital'', JArr [JStr ''Oslo'']),
      (''population'', JNum 5379475)]"

definition norwayCities :: "string list" where
  "norwayCities =
     [''Abelvaer'', ''Adalsbruk'', ''Adland'', ''Agotnes'', ''Agskardet'', ''Aker'', ''Akkarfjord'']"

text \<open>The metadata provider knows the code \<^verbatim>\<open>NO\<close>; the cities provider is unreachable.\<close>

definition metadataOnly :: "jobject \<Rightarrow> world" where
  "metadataOnly country =
     offline
       \<lparr>getCountryData :=
          (\<lambda>url. if url = ''http://129.241.150.113:8080/v3.1/alpha/NO''
                  then Response 200 (Decoded [country])
                  else Response 404 (Decoded []))\<rparr>"

text \<open>Both providers answer.\<close>

definition norwayWorld :: world where
  "norwayWorld =
     (metadataOnly norway)
       \<lparr>postCities :=
          (\<lambda>countryName. if countryName = ''Norway''
                  then Response 200 (Decoded \<lparr>CitiesError = False, CitiesData = norwayCities\<rparr>)
                  else Response 200 (Decoded \<lparr>CitiesError = True, CitiesData = []\<rparr>))\<rparr>"

text \<open>The metadata provider knows Norway; the cities provider answers with status 500.\<close>

definition citiesDownWorld :: world where
  "citiesDownWorld =
     (metadataOnly norway)
       \<lparr>postCities :=
          (\<lambda>countryName. Response 500 (Decoded \<lparr>CitiesError = False, CitiesData = []\<rparr>))\<rparr>"

text \<open>The ways a call to the cities provider can fail, in the specification's words:
  the request or the transport fails, the status is not 200, the body cannot be read or
  decoded, or the answer carries the error flag.\<close>

fun citiesFailed :: "CitiesApiResponse http \<Rightarrow> bool" where
  "citiesFailed (RequestError err) = True"
| "citiesFailed (TransportError err) = True"
| "citiesFailed (Response StatusCode (ReadError err)) = True"
| "citiesFailed (Response StatusCode (DecodeError err)) = True"
| "citiesFailed (Response StatusCode (Decoded apiResponse)) =
     (if StatusCode = 200 then CitiesError apiResponse else True)"

text \<open>A record with nothing but the name; the same with the population given as text;
  and one whose \<^verbatim>\<open>flags\<close> object has no \<^verbatim>\<open>svg\<close> member while a stray top-level
  \<^verbatim>\<open>svg\<close> member exists.\<close>

definition nameOnly :: jobject where
  "nameOnly = [(''name'', JObj [(''common'', JStr ''Norway'')])]"

definition textPopulation :: jobject where
  "textPopulation =
     [(''name'', JObj [(''common'', JStr ''Norway'')]), (''population'', JStr ''5379475'')]"

definition straySvg :: jobject where
  "straySvg =
     [(''name'', JObj [(''common'', JStr ''Norway'')]),
      (''flags'', JObj [(''png'', JStr ''https://flagcdn.com/w320/no.png'')]),
      (''svg'', JStr ''stray'')]"

text \<open>
  \<open>holdsString m key\<close>: the object has a string under \<open>key\<close>. \<open>flagsSvgMissing\<close> is the
  specification's condition for the flag default: there is no string at \<^verbatim>\<open>flags.svg\<close>.
  \<open>flagSource country key\<close> is where \<^verbatim>\<open>extractString(country, "flags", "svg")\<close> can find a
  string at \<open>key\<close>: the member itself, or, in an object, its \<^verbatim>\<open>flags\<close> or \<^verbatim>\<open>svg\<close> member.
\<close>

definition holdsString :: "jobject \<Rightarrow> string \<Rightarrow> bool" where
  "holdsString m key = (case map_of m key of Some (JStr s) \<Rightarrow> True | _ \<Rightarrow> False)"

definition flagsSvgMissing :: "jobject \<Rightarrow> bool" where
  "flagsSvgMissing country =
     (case map_of country ''flags'' of Some (JObj m) \<Rightarrow> \<not> holdsString m ''svg'' | _ \<Rightarrow> True)"

definition flagSource :: "jobject \<Rightarrow> string \<Rightarrow> bool" where
  "flagSource country key =
     (case map_of country key of
        Some (JStr s) \<Rightarrow> True
      | Some (JObj m) \<Rightarrow> holdsString m ''flags'' \<or> holdsString m ''svg''
      | _ \<Rightarrow> False)"

text \<open>The CountriesNow probe answers 200, the RestCountries probe 404.\<close>

definition probeWorld :: world where
  "probeWorld =
     offline
       \<lparr>getHealth :=
          (\<lambda>url. if url = ''http://129.241.150.113:3500/api/v0.1/countries''
                  then Response 200 (Decoded ())
                  else Response 404 (Decoded ()))\<rparr>"

text \<open>The population provider answers without error flag and without a
  \<^verbatim>\<open>populationCounts\<close> array.\<close>

definition noHistoryWorld :: world where
  "noHistoryWorld =
     indiaWorld
       \<lparr>postPopulation :=
          (\<lambda>countryName. Response 200 (Decoded (populationAnswer countryName None)))\<rparr>"

text \<open>
  The text the handlers look for before answering 502, and the text an upstream call
  brings into an error message from outside the program: the \<^verbatim>\<open>Error()\<close> string of the
  library error it ended with, if any.
\<close>

definition marker :: string where
  "marker = ''API request failed''"

fun foreignText :: "'a http \<Rightarrow> string" where
  "foreignText (RequestError err) = err"
| "foreignText (TransportError err) = err"
| "foreignText (Response StatusCode (ReadError err)) = err"
| "foreignText (Response StatusCode (DecodeError err)) = err"
| "foreignText (Response StatusCode (Decoded v)) = []"

text \<open>The population provider raises its error flag with the message
  \<^verbatim>\<open>API request failed\<close>.\<close>

definition markerWorld :: world where
  "markerWorld =
     indiaWorld
       \<lparr>postPopulation :=
          (\<lambda>countryName. Response 200
             (Decoded ((populationAnswer countryName None)\<lparr>Error := True, Msg := marker\<rparr>)))\<rparr>"

section \<open>Properties\<close>

subsection \<open>Integer arithmetic\<close>

lemma wrapInt_id: "- (2 ^ 63) \<le> x \<Longrightarrow> x < 2 ^ 63 \<Longrightarrow> wrapInt x = x"
  by (simp add: wrapInt_def)

lemma wrapInt_add_left: "wrapInt (wrapInt a + b) = wrapInt (a + b)"
proof -
  have "wrapInt a + b + 2 ^ 63 = (a + 2 ^ 63) mod 2 ^ 64 + b"
    by (simp add: wrapInt_def)
  then have "(wrapInt a + b + 2 ^ 63) mod 2 ^ 64 = (a + 2 ^ 63 + b) mod (2 ^ 64 :: int)"
    by (simp only: mod_add_left_eq)
  moreover have "a + 2 ^ 63 + b = a + b + (2 ^ 63 :: int)"
    by simp
  ultimately have "(wrapInt a + b + 2 ^ 63) mod 2 ^ 64 = (a + b + 2 ^ 63) mod (2 ^ 64 :: int)"
    by (simp only:)
  then show ?thesis
    unfolding wrapInt_def [of "wrapInt a + b"] wrapInt_def [of "a + b"] by (simp only:)
qed

lemma sdiv_nonneg: "0 \<le> (a::int) \<Longrightarrow> 0 < b \<Longrightarrow> a sdiv b = a div b"
  by (cases "a = 0") (simp_all add: signed_divide_int_def)

subsection \<open>The population report\<close>

text \<open>The loop keeps the records inside the window, in order, and adds up their values
  and their number, both modulo \<open>2^64\<close>.\<close>

lemma filterLoop_acc:
  "filterLoop s e xs (f, wrapInt t, wrapInt c) =
     (f @ filter (inWindow s e) xs,
      wrapInt (t + sum_list (map Value (filter (inWindow s e) xs))),
      wrapInt (c + int (length (filter (inWindow s e) xs))))"
proof (induction xs arbitrary: f t c)
  case Nil
  then show ?case by simp
next
  case (Cons x xs)
  show ?case
  proof (cases "inWindow s e x")
    case True
    have "filterLoop s e (x # xs) (f, wrapInt t, wrapInt c) =
          filterLoop s e xs (f @ [x], wrapInt (t + Value x), wrapInt (c + 1))"
      using True by (simp add: inWindow_def wrapInt_add_left)
    then show ?thesis using True
      by (simp add: Cons.IH add.assoc)
  next
    case False
    then show ?thesis using Cons.IH [of f t c]
      by (auto simp add: inWindow_def)
  qed
qed

lemma filterLoop_start:
  "filterLoop s e xs ([], 0, 0) =
     (filter (inWindow s e) xs,
      wrapInt (sum_list (map Value (filter (inWindow s e) xs))),
      wrapInt (int (length (filter (inWindow s e) xs))))"
  using filterLoop_acc [of s e xs "[]" 0 0] by (simp add: wrapInt_def)

lemma sum_list_nonneg_Value: "\<forall>r\<in>set xs. 0 \<le> Value r \<Longrightarrow> 0 \<le> sum_list (map Value xs)"
  by (induction xs) auto

text \<open>
  C1 (as amended). When the window is one \<^verbatim>\<open>FetchPopulationData\<close> accepts, the display name
  resolves and the population provider answers with a history of non-negative values,
  the report's values are exactly the records inside the window, in the provider's
  order, and its mean is the floor of their sum over their number (0 when none is
  inside), provided the sum stays below \<open>2^63\<close>, the range of a 64-bit \<^verbatim>\<open>int\<close>.
\<close>

theorem FetchPopulationData_report:
  assumes window: "startYear \<le> endYear \<or> endYear = 0"
    and name: "FetchCountryName w iso2 = Inr countryName"
    and answer: "postPopulation w countryName = Response 200 (Decoded apiResponse)"
    and flag: "\<not> Error apiResponse"
    and history: "PopulationCounts (Data apiResponse) = Some populationData"
    and nonneg: "\<forall>r\<in>set populationData. 0 \<le> Value r"
    and slice: "int (length populationData) < 2 ^ 63"
    and fits: "sum_list (map Value (filter (inWindow startYear endYear) populationData)) < 2 ^ 63"
  shows "FetchPopulationData w iso2 startYear endYear =
           Inr \<lparr>Mean =
                  (if filter (inWindow startYear endYear) populationData = [] then 0
                   else sum_list (map Value (filter (inWindow startYear endYear) populationData))
                          div int (length (filter (inWindow startYear endYear) populationData))),
                Values = filter (inWindow startYear endYear) populationData\<rparr>"
proof -
  let ?kept = "filter (inWindow startYear endYear) populationData"
  let ?sum = "sum_list (map Value ?kept)"
  let ?n = "int (length ?kept)"
  have "\<forall>r\<in>set ?kept. 0 \<le> Value r"
    using nonneg by simp
  then have sum0: "0 \<le> ?sum"
    by (rule sum_list_nonneg_Value)
  have "length ?kept \<le> length populationData"
    by (rule length_filter_le)
  then have n_lt: "?n < 2 ^ 63"
    using slice by linarith
  have wsum: "wrapInt ?sum = ?sum"
    using sum0 fits by (intro wrapInt_id) simp_all
  have wn: "wrapInt ?n = ?n"
    using n_lt by (intro wrapInt_id) simp_all
  have loop: "filterLoop startYear endYear populationData ([], 0, 0) = (?kept, ?sum, ?n)"
    by (simp only: filterLoop_start wsum wn)
  have mean: "(if 0 < ?n then ?sum sdiv ?n else 0) = (if ?kept = [] then 0 else ?sum div ?n)"
    using sum0 by (cases "?kept = []") (simp_all add: sdiv_nonneg)
  have accepted: "\<not> (endYear < startYear \<and> endYear \<noteq> 0)"
    using window by auto
  show ?thesis
    unfolding FetchPopulationData_def
    using accepted name answer flag history loop mean by simp
qed

theorem FetchPopulationData_report_witness:
  "FetchPopulationData indiaWorld ''IN'' 2010 2015 =
     Inr \<lparr>Mean = 1272825900,
          Values =
            [\<lparr>Year = 2010, Value = 1234281170\<rparr>,
             \<lparr>Year = 2011, Value = 1250288729\<rparr>,
             \<lparr>Year = 2012, Value = 1265782790\<rparr>,
             \<lparr>Year = 2013, Value = 1280846129\<rparr>,
             \<lparr>Year = 2014, Value = 1295604184\<rparr>,
             \<lparr>Year = 2015, Value = 1310152403\<rparr>]\<rparr>"
proof -
  have name: "FetchCountryName indiaWorld ''IN'' = Inr ''India''"
    by (simp add: FetchCountryName_def indiaWorld_def offline_def)
  have answer: "postPopulation indiaWorld ''India'' =
      Response 200 (Decoded (populationAnswer ''India'' (Some indiaHistory)))"
    by (simp add: indiaWorld_def offline_def)
  have kept: "filter (inWindow 2010 2015) indiaHistory =
      [\<lparr>Year = 2010, Value = 1234281170\<rparr>,
       \<lparr>Year = 2011, Value = 1250288729\<rparr>,
       \<lparr>Year = 2012, Value = 1265782790\<rparr>,
       \<lparr>Year = 2013, Value = 1280846129\<rparr>,
       \<lparr>Year = 2014, Value = 1295604184\<rparr>,
       \<lparr>Year = 2015, Value = 1310152403\<rparr>]"
    by (simp add: indiaHistory_def inWindow_def)
  show ?thesis
    using FetchPopulationData_report
      [of 2010 2015 indiaWorld "''IN''" "''India''"
          "populationAnswer ''India'' (Some indiaHistory)" indiaHistory]
    unfolding kept
    by (simp add: name answer populationAnswer_def) (simp add: indiaHistory_def)
qed

text \<open>
  C1 as stated fails where the sum overflows: for two records of \<open>2^62\<close> the sum wraps to
  \<open>- 2^63\<close> and the reported mean is \<open>- 2^62\<close>, not the floor \<open>2^62\<close> of sum over count.
\<close>

theorem FetchPopulationData_report_counterexample:
  "FetchPopulationData hugeWorld ''IN'' 0 0 =
     Inr \<lparr>Mean = - 4611686018427387904, Values = hugeHistory\<rparr>
   \<and> filter (inWindow 0 0) hugeHistory = hugeHistory
   \<and> sum_list (map Value hugeHistory) div int (length hugeHistory) = 4611686018427387904"
proof -
  have "FetchCountryName hugeWorld ''IN'' = Inr ''India''"
    by (simp add: FetchCountryName_def hugeWorld_def offline_def)
  moreover have "postPopulation hugeWorld ''India'' =
      Response 200 (Decoded (populationAnswer ''India'' (Some hugeHistory)))"
    by (simp add: hugeWorld_def offline_def)
  moreover have "filterLoop 0 0 hugeHistory ([], 0, 0) = (hugeHistory, - 9223372036854775808, 2)"
    by (simp add: hugeHistory_def wrapInt_def)
  moreover have "(- 9223372036854775808 :: int) sdiv 2 = - 4611686018427387904"
    by (simp add: signed_divide_int_def)
  ultimately have "FetchPopulationData hugeWorld ''IN'' 0 0 =
      Inr \<lparr>Mean = - 4611686018427387904, Values = hugeHistory\<rparr>"
    by (simp add: FetchPopulationData_def populationAnswer_def)
  moreover have "filter (inWindow 0 0) hugeHistory = hugeHistory"
    by (simp add: inWindow_def)
  moreover have "sum_list (map Value hugeHistory) div int (length hugeHistory) = 4611686018427387904"
    by (simp add: hugeHistory_def)
  ultimately show ?thesis by simp
qed

subsection \<open>Country information\<close>

lemma FetchCities_Panic:
  "FetchCities w countryName limit = Inl (Panic p) \<Longrightarrow> limit < 0"
  by (auto simp add: FetchCities_def split: http.splits body.splits if_splits)

lemma FetchCities_length:
  "0 \<le> limit \<Longrightarrow> FetchCities w countryName limit = Inr cities \<Longrightarrow> int (length cities) \<le> limit"
  by (auto simp add: FetchCities_def split: http.splits body.splits if_splits)

lemma FetchCities_failed:
  "citiesFailed (postCities w countryName) \<Longrightarrow> \<exists>err. FetchCities w countryName limit = Inl (Errorf err)"
  by (cases "postCities w countryName" rule: citiesFailed.cases)
     (auto simp add: FetchCities_def)

text \<open>What a successful \<^verbatim>\<open>FetchCountryInfo\<close> has gone through.\<close>

lemma FetchCountryInfo_Inr:
  assumes "FetchCountryInfo w countryCode limit = Inr info"
  obtains country rest name where
    "getCountryData w (''http://129.241.150.113:8080/v3.1/alpha/'' @ countryCode)
       = Response 200 (Decoded (country # rest))"
    "extractString country [''name'', ''common''] = (name, True)"
    "info = \<lparr>Name = name, Continent = region country, Population = population w country,
             Languages = languages country, Borders = extractStringArray country ''borders'',
             Flag = fst (extractString country [''flags'', ''svg'']), Capital = capital country,
             Cities = (case FetchCities w name limit of
                         Inl e \<Rightarrow> [''City data not available''] | Inr cities \<Rightarrow> cities)\<rparr>"
    "\<And>p. FetchCities w name limit \<noteq> Inl (Panic p)"
  using assms unfolding FetchCountryInfo_def Let_def
  by (auto split: http.splits body.splits list.splits prod.splits if_splits sum.splits error.splits)

lemma FetchCountryInfo_ok:
  assumes "getCountryData w (''http://129.241.150.113:8080/v3.1/alpha/'' @ countryCode)
       = Response 200 (Decoded (country # rest))"
    and "extractString country [''name'', ''common''] = (name, True)"
    and "\<And>p. FetchCities w name limit \<noteq> Inl (Panic p)"
  shows "FetchCountryInfo w countryCode limit =
     Inr \<lparr>Name = name, Continent = region country, Population = population w country,
             Languages = languages country, Borders = extractStringArray country ''borders'',
             Flag = fst (extractString country [''flags'', ''svg'']), Capital = capital country,
             Cities = (case FetchCities w name limit of
                         Inl e \<Rightarrow> [''City data not available''] | Inr cities \<Rightarrow> cities)\<rparr>"
  using assms unfolding FetchCountryInfo_def Let_def
  by (auto split: sum.splits error.splits)

lemma CountryInfoHandler_JsonBody:
  assumes "CountryInfoHandler w r = JsonBody info"
  obtains countryCode limit where
    "matchISO2 countryCode"
    "if LimitParam r = [] then limit = 10 else Atoi (LimitParam r) = Some limit"
    "0 < limit"
    "FetchCountryInfo w countryCode limit = Inr info"
  using assms unfolding CountryInfoHandler_def countryInfoReply_def Let_def
  by (auto split: if_splits option.splits sum.splits error.splits)

text \<open>
  C2. Whenever \<^verbatim>\<open>CountryInfoHandler\<close> answers with a country record, the request's code was
  a valid ISO2 code, its limit was a positive integer (10 when the parameter is absent),
  and the record lists at most that many cities; the placeholder put in when the city
  fetch fails is one entry, which a positive limit always admits.
\<close>

theorem CountryInfoHandler_cities_limit:
  assumes "CountryInfoHandler w r = JsonBody info"
  shows "\<exists>limit. (if LimitParam r = [] then limit = 10 else Atoi (LimitParam r) = Some limit)
           \<and> 0 < limit \<and> int (length (Cities info)) \<le> limit"
proof -
  from assms obtain countryCode limit where
      limit: "if LimitParam r = [] then limit = 10 else Atoi (LimitParam r) = Some limit"
      and pos: "0 < limit"
      and fetched: "FetchCountryInfo w countryCode limit = Inr info"
    by (rule CountryInfoHandler_JsonBody)
  from fetched obtain name where
      cities: "Cities info = (case FetchCities w name limit of
                 Inl e \<Rightarrow> [''City data not available''] | Inr cities \<Rightarrow> cities)"
    by (rule FetchCountryInfo_Inr) simp
  have "int (length (Cities info)) \<le> limit"
  proof (cases "FetchCities w name limit")
    case (Inl e)
    then show ?thesis using cities pos by simp
  next
    case (Inr cs)
    then show ?thesis using cities pos FetchCities_length [of limit w name cs] by simp
  qed
  with limit pos show ?thesis by blast
qed

lemma norway_name: "extractString norway [''name'', ''common''] = (''Norway'', True)"
  by (simp add: extractString_def norway_def)

lemma norway_flag: "extractString norway [''flags'', ''svg''] = (''https://flagcdn.com/no.svg'', True)"
  by (simp add: extractString_def norway_def)

lemma norwayWorld_cities5:
  "FetchCities norwayWorld ''Norway'' 5 = Inr [''Abelvaer'', ''Adalsbruk'', ''Adland'', ''Agotnes'', ''Agskardet'']"
  by (simp add: FetchCities_def norwayWorld_def metadataOnly_def offline_def norwayCities_def)

lemma norwayWorld_info5:
  "CountryInfoHandler norwayWorld \<lparr>Path = ''/countryinfo/v1/info/no'', LimitParam = ''5''\<rparr> =
     JsonBody \<lparr>Name = ''Norway'', Continent = region norway, Population = population norwayWorld norway,
             Languages = languages norway, Borders = extractStringArray norway ''borders'',
             Flag = ''https://flagcdn.com/no.svg'', Capital = capital norway,
             Cities = [''Abelvaer'', ''Adalsbruk'', ''Adland'', ''Agotnes'', ''Agskardet'']\<rparr>"
proof -
  have data: "getCountryData norwayWorld (''http://129.241.150.113:8080/v3.1/alpha/'' @ ''NO'')
      = Response 200 (Decoded (norway # []))"
    by (simp add: norwayWorld_def metadataOnly_def offline_def)
  have fetched: "FetchCountryInfo norwayWorld ''NO'' 5 =
     Inr \<lparr>Name = ''Norway'', Continent = region norway, Population = population norwayWorld norway,
             Languages = languages norway, Borders = extractStringArray norway ''borders'',
             Flag = ''https://flagcdn.com/no.svg'', Capital = capital norway,
             Cities = [''Abelvaer'', ''Adalsbruk'', ''Adland'', ''Agotnes'', ''Agskardet'']\<rparr>"
    using FetchCountryInfo_ok [OF data norway_name, of 5]
    by (simp add: norwayWorld_cities5 norway_flag)
  have upper: "ToUpper norwayWorld ''no'' = ''NO''"
    by (simp add: norwayWorld_def metadataOnly_def offline_def asciiUpper_def)
  have five: "Atoi ''5'' = Some 5"
    by (simp add: Atoi_def digitValue_def)
  show ?thesis
    by (simp add: CountryInfoHandler_def countryInfoReply_def upper five fetched
        matchISO2_def isUpperAZ_def)
qed

theorem CountryInfoHandler_cities_limit_witness:
  "statusOf (CountryInfoHandler norwayWorld
       \<lparr>Path = ''/countryinfo/v1/info/no'', LimitParam = ''5''\<rparr>) = Some 200
   \<and> (\<exists>limit. Atoi ''5'' = Some limit \<and> 0 < limit
     \<and> int (length [''Abelvaer'', ''Adalsbruk'', ''Adland'', ''Agotnes'', ''Agskardet'']) \<le> limit)"
  using CountryInfoHandler_cities_limit [OF norwayWorld_info5] norwayWorld_info5 by simp


lemma extractNested_None:
  "\<not> holdsString m a \<Longrightarrow> \<not> holdsString m b \<Longrightarrow> extractNested m [a, b] = None"
  by (auto simp add: holdsString_def split: option.splits json.splits)

lemma extractString_flag_default:
  assumes "\<not> flagSource country ''flags''" and "\<not> flagSource country ''svg''"
  shows "extractString country [''flags'', ''svg''] = ([], False)"
proof -
  have one: "extractLoop country [''flags'', ''svg''] (key # ks) =
             extractLoop country [''flags'', ''svg''] ks"
    if no_source: "\<not> flagSource country key" for key ks
  proof (cases "map_of country key")
    case None
    then show ?thesis by simp
  next
    case (Some v)
    show ?thesis
    proof (cases v)
      case (JObj m)
      with Some no_source have "\<not> holdsString m ''flags''" and "\<not> holdsString m ''svg''"
        by (simp_all add: flagSource_def)
      then have "extractNested m [''flags'', ''svg''] = None"
        by (rule extractNested_None)
      with Some JObj show ?thesis
        by (simp del: extractNested.simps)
    next
      case (JStr s)
      with Some no_source show ?thesis
        by (simp add: flagSource_def)
    qed (use Some in simp_all)
  qed
  have "extractLoop country [''flags'', ''svg''] [''flags'', ''svg'']
          = extractLoop country [''flags'', ''svg''] [''svg'']"
    using assms(1) by (rule one)
  also have "\<dots> = extractLoop country [''flags'', ''svg''] []"
    using assms(2) by (rule one)
  finally show ?thesis
    by (simp add: extractString_def)
qed

text \<open>
  C7 (as amended). For a decoded record with a usable common name and a limit that is not
  negative, \<^verbatim>\<open>FetchCountryInfo\<close> succeeds whatever the optional members look like, with
  region "Unknown" when \<^verbatim>\<open>region\<close> is no string, capital "N/A" when \<^verbatim>\<open>capital\<close> is not an
  array that starts with a string, no languages and no borders when those members are
  not an object and not an array, and an empty flag when \<^verbatim>\<open>extractString\<close> has no source
  for it: neither \<^verbatim>\<open>flags\<close> nor a top-level \<^verbatim>\<open>svg\<close> is a string or an object with a
  string member \<^verbatim>\<open>flags\<close> or \<^verbatim>\<open>svg\<close>.
\<close>

theorem FetchCountryInfo_defaults:
  assumes meta: "getCountryData w (''http://129.241.150.113:8080/v3.1/alpha/'' @ countryCode)
                   = Response 200 (Decoded (country # rest))"
    and name: "extractString country [''name'', ''common''] = (name, True)"
    and limit: "0 \<le> limit"
  shows "\<exists>info. FetchCountryInfo w countryCode limit = Inr info
     \<and> ((\<forall>r. map_of country ''region'' \<noteq> Some (JStr r)) \<longrightarrow> Continent info = ''Unknown'')
     \<and> ((\<forall>capStr others. map_of country ''capital'' \<noteq> Some (JArr (JStr capStr # others)))
          \<longrightarrow> Capital info = ''N/A'')
     \<and> (\<not> flagSource country ''flags'' \<and> \<not> flagSource country ''svg'' \<longrightarrow> Flag info = [])
     \<and> ((\<forall>langs. map_of country ''languages'' \<noteq> Some (JObj langs))
          \<longrightarrow> Languages info = Map.empty)
     \<and> ((\<forall>arr. map_of country ''borders'' \<noteq> Some (JArr arr)) \<longrightarrow> Borders info = [])"
proof -
  have no_panic: "FetchCities w name limit \<noteq> Inl (Panic p)" for p
    using FetchCities_Panic [of w name limit p] limit by auto
  note fetched = FetchCountryInfo_ok [OF meta name no_panic]
  have region: "region country = ''Unknown''" if "\<forall>r. map_of country ''region'' \<noteq> Some (JStr r)"
    using that by (auto simp add: region_def split: option.splits json.splits)
  have capital: "capital country = ''N/A''"
    if "\<forall>capStr others. map_of country ''capital'' \<noteq> Some (JArr (JStr capStr # others))"
    using that by (auto simp add: capital_def split: option.splits json.splits list.splits)
  have langs: "languages country = Map.empty"
    if "\<forall>langs. map_of country ''languages'' \<noteq> Some (JObj langs)"
    using that by (auto simp add: languages_def split: option.splits json.splits)
  have borders: "extractStringArray country ''borders'' = []"
    if "\<forall>arr. map_of country ''borders'' \<noteq> Some (JArr arr)"
    using that by (auto simp add: extractStringArray_def split: option.splits json.splits)
  show ?thesis
    using region capital langs borders extractString_flag_default [of country]
    by (simp add: fetched)
qed

lemma nameOnly_name: "extractString nameOnly [''name'', ''common''] = (''Norway'', True)"
  by (simp add: extractString_def nameOnly_def)

lemma metadataOnly_NO:
  "getCountryData (metadataOnly country) (''http://129.241.150.113:8080/v3.1/alpha/'' @ ''NO'')
     = Response 200 (Decoded (country # []))"
  by (simp add: metadataOnly_def offline_def)

theorem FetchCountryInfo_defaults_witness:
  "\<exists>info. FetchCountryInfo (metadataOnly nameOnly) ''NO'' 10 = Inr info
     \<and> Continent info = ''Unknown'' \<and> Capital info = ''N/A'' \<and> Flag info = []
     \<and> Languages info = Map.empty \<and> Borders info = []"
proof -
  have "\<not> flagSource nameOnly ''flags''" and "\<not> flagSource nameOnly ''svg''"
    by (simp_all add: flagSource_def nameOnly_def)
  moreover have "map_of nameOnly ''region'' = None" and "map_of nameOnly ''capital'' = None"
    and "map_of nameOnly ''languages'' = None" and "map_of nameOnly ''borders'' = None"
    by (simp_all add: nameOnly_def)
  ultimately show ?thesis
    using FetchCountryInfo_defaults [OF metadataOnly_NO nameOnly_name, of 10] by simp
qed

text \<open>
  C7 as stated fails for the flag: with no string at \<^verbatim>\<open>flags.svg\<close>, \<^verbatim>\<open>extractString\<close>
  goes on to the key \<^verbatim>\<open>svg\<close> of the record itself and returns the string it finds there.
\<close>

theorem FetchCountryInfo_defaults_counterexample:
  "flagsSvgMissing straySvg
   \<and> FetchCountryInfo (metadataOnly straySvg) ''NO'' 10 =
       Inr \<lparr>Name = ''Norway'', Continent = ''Unknown'', Population = 0,
            Languages = languages straySvg, Borders = [], Flag = ''stray'', Capital = ''N/A'',
            Cities = [''City data not available'']\<rparr>"
proof -
  have name: "extractString straySvg [''name'', ''common''] = (''Norway'', True)"
    by (simp add: extractString_def straySvg_def)
  have flag: "extractString straySvg [''flags'', ''svg''] = (''stray'', True)"
    by (simp add: extractString_def straySvg_def)
  have cities: "FetchCities (metadataOnly straySvg) ''Norway'' 10
      = Inl (Errorf (''failed to fetch cities: '' @ ''connection refused''))"
    by (simp add: FetchCities_def metadataOnly_def offline_def)
  have "FetchCountryInfo (metadataOnly straySvg) ''NO'' 10 =
       Inr \<lparr>Name = ''Norway'', Continent = ''Unknown'', Population = 0,
            Languages = languages straySvg, Borders = [], Flag = ''stray'', Capital = ''N/A'',
            Cities = [''City data not available'']\<rparr>"
    using FetchCountryInfo_ok [OF metadataOnly_NO name, of 10]
    by (simp add: cities flag)
       (simp add: region_def population_def capital_def extractStringArray_def straySvg_def)
  moreover have "flagsSvgMissing straySvg"
    by (simp add: flagsSvgMissing_def holdsString_def straySvg_def)
  ultimately show ?thesis by simp
qed

text \<open>
  C8. When the metadata fetch yields a record with a name and the call to the cities
  provider fails in any of the ways \<open>citiesFailed\<close> lists (whatever the limit),
  \<^verbatim>\<open>FetchCountryInfo\<close> succeeds; its cities are the one placeholder, and every other field
  is what the metadata record gives: the extracted name, region, population, languages,
  borders, flag and capital.
\<close>

theorem FetchCountryInfo_city_fallback:
  assumes meta: "getCountryData w (''http://129.241.150.113:8080/v3.1/alpha/'' @ countryCode)
                   = Response 200 (Decoded (country # rest))"
    and name: "extractString country [''name'', ''common''] = (name, True)"
    and failed: "citiesFailed (postCities w name)"
  shows "FetchCountryInfo w countryCode limit =
           Inr \<lparr>Name = name,
                Continent = region country,
                Population = population w country,
                Languages = languages country,
                Borders = extractStringArray country ''borders'',
                Flag = fst (extractString country [''flags'', ''svg'']),
                Capital = capital country,
                Cities = [''City data not available'']\<rparr>"
proof -
  from FetchCities_failed [OF failed, of limit]
  obtain err where err: "FetchCities w name limit = Inl (Errorf err)" ..
  then have no_panic: "FetchCities w name limit \<noteq> Inl (Panic p)" for p
    by simp
  show ?thesis
    by (simp only: FetchCountryInfo_ok [OF meta name no_panic] err sum.case)
qed

lemma norway_fields:
  "region norway = ''Europe''"
  "population w norway = 5379475"
  "extractStringArray norway ''borders'' = [''FIN'', ''SWE'', ''RUS'']"
  "capital norway = ''Oslo''"
  "languages norway ''nno'' = Some ''Norwegian Nynorsk''"
  "languages norway ''eng'' = None"
  by (simp_all add: region_def population_def floatToInt_def extractStringArray_def capital_def
      languages_def norway_def)

theorem FetchCountryInfo_city_fallback_witness:
  "citiesFailed (postCities (metadataOnly norway) ''Norway'')
   \<and> citiesFailed (postCities citiesDownWorld ''Norway'')
   \<and> FetchCountryInfo (metadataOnly norway) ''NO'' 5 =
       Inr \<lparr>Name = ''Norway'', Continent = ''Europe'', Population = 5379475,
            Languages = languages norway, Borders = [''FIN'', ''SWE'', ''RUS''],
            Flag = ''https://flagcdn.com/no.svg'', Capital = ''Oslo'',
            Cities = [''City data not available'']\<rparr>
   \<and> FetchCountryInfo citiesDownWorld ''NO'' 5 =
       Inr \<lparr>Name = ''Norway'', Continent = ''Europe'', Population = 5379475,
            Languages = languages norway, Borders = [''FIN'', ''SWE'', ''RUS''],
            Flag = ''https://flagcdn.com/no.svg'', Capital = ''Oslo'',
            Cities = [''City data not available'']\<rparr>
   \<and> languages norway ''nno'' = Some ''Norwegian Nynorsk''"
proof -
  have refused: "citiesFailed (postCities (metadataOnly norway) ''Norway'')"
    by (simp add: metadataOnly_def offline_def)
  have down: "citiesFailed (postCities citiesDownWorld ''Norway'')"
    by (simp add: citiesDownWorld_def metadataOnly_def offline_def)
  have data: "getCountryData citiesDownWorld (''http://129.241.150.113:8080/v3.1/alpha/'' @ ''NO'')
      = Response 200 (Decoded (norway # []))"
    by (simp add: citiesDownWorld_def metadataOnly_def offline_def)
  show ?thesis
    using FetchCountryInfo_city_fallback [OF metadataOnly_NO norway_name refused, of 5]
      FetchCountryInfo_city_fallback [OF data norway_name down, of 5]
      refused down
    by (simp add: norway_fields norway_flag)
qed

text \<open>
  C10. For a record with a usable name whose \<^verbatim>\<open>population\<close> member is missing or is not a
  number, \<^verbatim>\<open>FetchCountryInfo\<close> (with a limit that is not negative) succeeds and reports
  the population 0.
\<close>

theorem FetchCountryInfo_population_default:
  assumes meta: "getCountryData w (''http://129.241.150.113:8080/v3.1/alpha/'' @ countryCode)
                   = Response 200 (Decoded (country # rest))"
    and name: "extractString country [''name'', ''common''] = (name, True)"
    and limit: "0 \<le> limit"
    and no_number: "\<forall>pop. map_of country ''population'' \<noteq> Some (JNum pop)"
  shows "\<exists>info. FetchCountryInfo w countryCode limit = Inr info \<and> Population info = 0"
proof -
  have no_panic: "FetchCities w name limit \<noteq> Inl (Panic p)" for p
    using FetchCities_Panic [of w name limit p] limit by auto
  have "population w country = 0"
    using no_number by (auto simp add: population_def split: option.splits json.splits)
  then show ?thesis
    by (simp add: FetchCountryInfo_ok [OF meta name no_panic])
qed

theorem FetchCountryInfo_population_default_witness:
  "\<exists>info. FetchCountryInfo (metadataOnly textPopulation) ''NO'' 10 = Inr info
     \<and> Population info = 0"
proof -
  have name: "extractString textPopulation [''name'', ''common''] = (''Norway'', True)"
    by (simp add: extractString_def textPopulation_def)
  have "map_of textPopulation ''population'' = Some (JStr ''5379475'')"
    by (simp add: textPopulation_def)
  then show ?thesis
    using FetchCountryInfo_population_default [OF metadataOnly_NO name, of 10] by simp
qed

subsection \<open>The health probe\<close>

text \<open>
  C6. \<^verbatim>\<open>checkAPIHealth\<close> is a total function to status strings: "200" for a response with
  status 200, "ERROR " followed by the status text for a response with any other status,
  and "FAILED" when the request errors (a timeout is such an error); and
  \<^verbatim>\<open>StatusHandler\<close> always answers 200 with the two probes' strings.
\<close>

theorem checkAPIHealth_status:
  "(\<forall>respBody. getHealth w url = Response 200 respBody \<longrightarrow> checkAPIHealth w url = ''200'')
   \<and> (\<forall>StatusCode respBody. getHealth w url = Response StatusCode respBody \<and> StatusCode \<noteq> 200
         \<longrightarrow> checkAPIHealth w url = ''ERROR '' @ StatusText w StatusCode)
   \<and> (\<forall>err. getHealth w url = RequestError err \<or> getHealth w url = TransportError err
         \<longrightarrow> checkAPIHealth w url = ''FAILED'')
   \<and> StatusHandler w r =
        JsonBody \<lparr>CountriesNowAPI = checkAPIHealth w ''http://129.241.150.113:3500/api/v0.1/countries'',
                  RestCountriesAPI = checkAPIHealth w ''http://129.241.150.113:8080/v3.1/all'',
                  Version = ''v1'', Uptime = uptimeSeconds w\<rparr>"
  by (auto simp add: checkAPIHealth_def StatusHandler_def)

theorem checkAPIHealth_status_witness:
  "checkAPIHealth probeWorld ''http://129.241.150.113:3500/api/v0.1/countries'' = ''200''
   \<and> checkAPIHealth probeWorld ''http://129.241.150.113:8080/v3.1/all'' = ''ERROR Not Found''
   \<and> checkAPIHealth offline ''http://129.241.150.113:8080/v3.1/all'' = ''FAILED''"
proof -
  have up: "getHealth probeWorld ''http://129.241.150.113:3500/api/v0.1/countries''
      = Response 200 (Decoded ())"
    by (simp add: probeWorld_def offline_def)
  have missing: "getHealth probeWorld ''http://129.241.150.113:8080/v3.1/all''
      = Response 404 (Decoded ())"
    by (simp add: probeWorld_def offline_def)
  have text404: "StatusText probeWorld 404 = ''Not Found''"
    by (simp add: probeWorld_def offline_def)
  have down: "getHealth offline ''http://129.241.150.113:8080/v3.1/all''
      = TransportError ''connection refused''"
    by (simp add: offline_def)
  show ?thesis
    using checkAPIHealth_status [of probeWorld "''http://129.241.150.113:3500/api/v0.1/countries''"]
      checkAPIHealth_status [of probeWorld "''http://129.241.150.113:8080/v3.1/all''"]
      checkAPIHealth_status [of offline "''http://129.241.150.113:8080/v3.1/all''"]
    by (simp add: up missing text404 down)
qed

subsection \<open>The population endpoint\<close>

lemma Split_not_Nil: "Split s sep \<noteq> []"
proof (induction s)
  case Nil
  show ?case by simp
next
  case (Cons c s)
  then show ?case
    by (cases "Split s sep") simp_all
qed

lemma Split_no_sep: "sep \<notin> set a \<Longrightarrow> Split a sep = [a]"
  by (induction a) auto

lemma Split_at_sep: "sep \<notin> set a \<Longrightarrow> Split (a @ sep # b) sep = a # Split b sep"
  by (induction a) auto

lemma Split_single: "Split s sep = [a] \<longleftrightarrow> s = a \<and> sep \<notin> set a"
proof
  assume single: "Split s sep = [a]"
  have "sep \<notin> set s"
  proof
    assume "sep \<in> set s"
    then obtain x y where s: "s = x @ sep # y" and "sep \<notin> set x"
      by (auto dest: split_list_first)
    then have "Split s sep = x # Split y sep"
      by (simp add: Split_at_sep)
    with single have "Split y sep = []"
      by simp
    then show False
      using Split_not_Nil [of y sep] by simp
  qed
  then have "Split s sep = [s]"
    by (rule Split_no_sep)
  with single have "s = a"
    by simp
  with \<open>sep \<notin> set s\<close> show "s = a \<and> sep \<notin> set a"
    by simp
next
  assume "s = a \<and> sep \<notin> set a"
  then show "Split s sep = [a]"
    by (simp add: Split_no_sep)
qed

lemma Split_two: "Split s sep = [a, b] \<longleftrightarrow> s = a @ sep # b \<and> sep \<notin> set a \<and> sep \<notin> set b"
proof
  assume two: "Split s sep = [a, b]"
  have "sep \<in> set s"
  proof (rule ccontr)
    assume "sep \<notin> set s"
    then have "Split s sep = [s]"
      by (rule Split_no_sep)
    with two show False
      by simp
  qed
  then obtain x y where s: "s = x @ sep # y" and x: "sep \<notin> set x"
    by (auto dest: split_list_first)
  then have "Split s sep = x # Split y sep"
    by (simp add: Split_at_sep)
  with two have "x = a" and "Split y sep = [b]"
    by simp_all
  then have "y = b" and "sep \<notin> set b"
    by (simp_all add: Split_single)
  with s x \<open>x = a\<close> show "s = a @ sep # b \<and> sep \<notin> set a \<and> sep \<notin> set b"
    by simp
next
  assume "s = a @ sep # b \<and> sep \<notin> set a \<and> sep \<notin> set b"
  then show "Split s sep = [a, b]"
    by (simp add: Split_at_sep Split_no_sep)
qed

lemma PopulationHandler_valid_code:
  assumes "Split (TrimPrefix (Path r) ''/countryinfo/v1/population/'') CHR ''/'' = seg # segs"
    and "seg \<noteq> []" and "matchISO2 (ToUpper w seg)"
  shows "PopulationHandler w r =
     (case yearRange w (LimitParam r) of
        Inl resp \<Rightarrow> resp
      | Inr (startYear, endYear) \<Rightarrow>
          populationReply (FetchPopulationData w (ToUpper w seg) startYear endYear))"
  using assms by (simp add: PopulationHandler_def)

lemma yearRange_absent: "yearRange w [] = Inr (0, 0)"
  by (simp add: yearRange_def)

lemma yearRange_two_parts:
  assumes "CHR ''-'' \<notin> set a" and "CHR ''-'' \<notin> set b"
  shows "yearRange w (a @ CHR ''-'' # b) =
     (case (Atoi a, Atoi b) of
        (Some startYear, Some endYear) \<Rightarrow>
          if startYear < 1900 \<or> endYear > currentYear w
          then Inl (HttpError (''Year range out of bounds. Use years between 1900 and ''
                      @ showInt (currentYear w) @ ''.'') 400)
          else Inr (startYear, endYear)
      | _ \<Rightarrow>
          Inl (HttpError (''Invalid 'limit' format. Use 'startYear-endYear' with numeric ''
                 @ ''values (e.g., '2000-2020').'') 400))"
proof -
  have "Split (a @ CHR ''-'' # b) CHR ''-'' = [a, b]"
    using assms by (simp add: Split_two)
  then show ?thesis
    by (simp add: yearRange_def)
qed

lemma yearRange_other_shape:
  assumes "limitParam \<noteq> []"
    and "\<forall>a b. CHR ''-'' \<notin> set a \<and> CHR ''-'' \<notin> set b \<longrightarrow> limitParam \<noteq> a @ CHR ''-'' # b"
  shows "yearRange w limitParam = Inl (HttpError ''Invalid 'limit' format. Use 'startYear-endYear'.'' 400)"
proof -
  have "length (Split limitParam CHR ''-'') \<noteq> 2"
  proof
    assume "length (Split limitParam CHR ''-'') = 2"
    then obtain a b where "Split limitParam CHR ''-'' = [a, b]"
      by (auto simp add: length_Suc_conv numeral_2_eq_2)
    then have "limitParam = a @ CHR ''-'' # b \<and> CHR ''-'' \<notin> set a \<and> CHR ''-'' \<notin> set b"
      by (simp add: Split_two)
    with assms(2) show False by blast
  qed
  with assms(1) show ?thesis
    by (simp add: yearRange_def)
qed

text \<open>
  C9. For a request to the population endpoint whose path carries a valid ISO2 code:
  without a limit the window is unbounded on both sides (0, 0); a limit that is not two
  parts around one \<^verbatim>\<open>-\<close>, or whose parts \<^verbatim>\<open>strconv.Atoi\<close> does not both accept, gets 400; a
  parsed pair with start below 1900 or end above the current year gets 400; any other
  parsed pair is handed to \<^verbatim>\<open>FetchPopulationData\<close> as the window.
\<close>

theorem PopulationHandler_year_range:
  assumes path: "Split (TrimPrefix (Path r) ''/countryinfo/v1/population/'') CHR ''/'' = seg # segs"
    and seg: "seg \<noteq> []"
    and code: "matchISO2 (ToUpper w seg)"
  shows "(LimitParam r = [] \<longrightarrow>
            PopulationHandler w r = populationReply (FetchPopulationData w (ToUpper w seg) 0 0))
     \<and> (LimitParam r \<noteq> []
          \<and> (\<forall>a b. CHR ''-'' \<notin> set a \<and> CHR ''-'' \<notin> set b \<longrightarrow> LimitParam r \<noteq> a @ CHR ''-'' # b)
          \<longrightarrow> statusOf (PopulationHandler w r) = Some 400)
     \<and> (\<forall>a b. LimitParam r = a @ CHR ''-'' # b \<and> CHR ''-'' \<notin> set a \<and> CHR ''-'' \<notin> set b \<longrightarrow>
          (case (Atoi a, Atoi b) of
             (Some startYear, Some endYear) \<Rightarrow>
               if startYear < 1900 \<or> currentYear w < endYear
               then statusOf (PopulationHandler w r) = Some 400
               else PopulationHandler w r =
                      populationReply (FetchPopulationData w (ToUpper w seg) startYear endYear)
           | _ \<Rightarrow> statusOf (PopulationHandler w r) = Some 400))"
proof (intro conjI allI impI)
  assume "LimitParam r = []"
  then show "PopulationHandler w r = populationReply (FetchPopulationData w (ToUpper w seg) 0 0)"
    by (simp add: PopulationHandler_valid_code [OF path seg code] yearRange_absent)
next
  assume "LimitParam r \<noteq> []
      \<and> (\<forall>a b. CHR ''-'' \<notin> set a \<and> CHR ''-'' \<notin> set b \<longrightarrow> LimitParam r \<noteq> a @ CHR ''-'' # b)"
  then have "yearRange w (LimitParam r)
      = Inl (HttpError ''Invalid 'limit' format. Use 'startYear-endYear'.'' 400)"
    using yearRange_other_shape [of "LimitParam r" w] by blast
  then show "statusOf (PopulationHandler w r) = Some 400"
    by (simp add: PopulationHandler_valid_code [OF path seg code])
next
  fix a b
  assume "LimitParam r = a @ CHR ''-'' # b \<and> CHR ''-'' \<notin> set a \<and> CHR ''-'' \<notin> set b"
  then have limit: "LimitParam r = a @ CHR ''-'' # b"
    and parts: "CHR ''-'' \<notin> set a" "CHR ''-'' \<notin> set b"
    by simp_all
  show "case (Atoi a, Atoi b) of
          (Some startYear, Some endYear) \<Rightarrow>
            if startYear < 1900 \<or> currentYear w < endYear
            then statusOf (PopulationHandler w r) = Some 400
            else PopulationHandler w r =
                   populationReply (FetchPopulationData w (ToUpper w seg) startYear endYear)
        | _ \<Rightarrow> statusOf (PopulationHandler w r) = Some 400"
    unfolding PopulationHandler_valid_code [OF path seg code] limit
      yearRange_two_parts [OF parts]
    by (simp split: option.splits)
qed

theorem PopulationHandler_year_range_witness:
  "PopulationHandler indiaWorld \<lparr>Path = ''/countryinfo/v1/population/in'', LimitParam = ''2010-2015''\<rparr>
     = populationReply (FetchPopulationData indiaWorld ''IN'' 2010 2015)
   \<and> PopulationHandler indiaWorld \<lparr>Path = ''/countryinfo/v1/population/in'', LimitParam = []\<rparr>
     = populationReply (FetchPopulationData indiaWorld ''IN'' 0 0)
   \<and> statusOf (PopulationHandler indiaWorld
        \<lparr>Path = ''/countryinfo/v1/population/in'', LimitParam = ''2010''\<rparr>) = Some 400"
proof -
  let ?r = "\<lambda>limit. \<lparr>Path = ''/countryinfo/v1/population/in'', LimitParam = limit\<rparr>"
  have path: "Split (TrimPrefix (Path (?r limit)) ''/countryinfo/v1/population/'') CHR ''/''
      = ''in'' # []" for limit
    by (simp add: TrimPrefix_def)
  have seg: "''in'' \<noteq> []"
    by simp
  have upper: "ToUpper indiaWorld ''in'' = ''IN''"
    by (simp add: indiaWorld_def offline_def asciiUpper_def)
  have code: "matchISO2 (ToUpper indiaWorld ''in'')"
    by (simp add: upper matchISO2_def isUpperAZ_def)
  have years: "Atoi ''2010'' = Some 2010" "Atoi ''2015'' = Some 2015"
    by (simp_all add: Atoi_def digitValue_def)
  have now: "currentYear indiaWorld = 2025"
    by (simp add: indiaWorld_def offline_def)
  have no_dash: "\<forall>a b. CHR ''-'' \<notin> set a \<and> CHR ''-'' \<notin> set b \<longrightarrow> ''2010'' \<noteq> a @ CHR ''-'' # b"
  proof (intro allI impI notI)
    fix a b
    assume "''2010'' = a @ CHR ''-'' # b"
    then have "CHR ''-'' \<in> set ''2010''"
      by (simp only: set_append list.set) simp
    then show False by simp
  qed
  note parsed = PopulationHandler_year_range
    [OF path seg code, THEN conjunct2, THEN conjunct2, rule_format]
  have "PopulationHandler indiaWorld (?r ''2010-2015'')
      = populationReply (FetchPopulationData indiaWorld ''IN'' 2010 2015)"
    using parsed [where limit = "''2010-2015''" and a = "''2010''" and b = "''2015''"]
    by (simp add: years now upper)
  moreover have "PopulationHandler indiaWorld (?r [])
      = populationReply (FetchPopulationData indiaWorld ''IN'' 0 0)"
    using PopulationHandler_year_range [OF path seg code, THEN conjunct1, of "[]"]
    by (simp add: upper)
  moreover have "statusOf (PopulationHandler indiaWorld (?r ''2010'')) = Some 400"
    using PopulationHandler_year_range
      [OF path seg code, THEN conjunct2, THEN conjunct1, of "''2010''"] no_dash
    by simp
  ultimately show ?thesis by simp
qed

subsection \<open>Error texts\<close>

lemma digitChar_digit: "n < 10 \<Longrightarrow> digitChar n \<in> set ''0123456789''"
  unfolding digitChar_def by (rule nth_mem) simp

lemma showNat_chars: "set (showNat n) \<subseteq> set ''0123456789''"
proof (induction n rule: showNat.induct)
  case (1 n)
  show ?case
  proof (cases "n < 10")
    case True
    then show ?thesis
      using digitChar_digit [of n] by (subst showNat.simps) simp
  next
    case False
    have "n mod 10 < 10" by simp
    then have "digitChar (n mod 10) \<in> set ''0123456789''"
      by (rule digitChar_digit)
    with False "1.IH" show ?thesis
      by (subst showNat.simps) simp
  qed
qed

lemma showInt_chars: "set (showInt i) \<subseteq> set ''-0123456789''"
proof (cases "i < 0")
  case True
  then have "set (showInt i) = insert CHR ''-'' (set (showNat (nat (- i))))"
    by (simp add: showInt_def)
  moreover have "set ''-0123456789'' = insert CHR ''-'' (set ''0123456789'')"
    by (simp only: list.set)
  ultimately show ?thesis
    using showNat_chars [of "nat (- i)"] by (simp only: insert_mono)
next
  case False
  then have "set (showInt i) = set (showNat (nat i))"
    by (simp add: showInt_def)
  moreover have "set ''0123456789'' \<subseteq> set ''-0123456789''"
    by (simp only: list.set subset_insertI)
  ultimately show ?thesis
    using showNat_chars [of "nat i"] by (simp only: subset_trans)
qed

text \<open>A text sharing no character with the number's digits and sign does not begin
  inside the number.\<close>

lemma sublist_past_number:
  assumes "xs \<noteq> []" and "set xs \<inter> set ''-0123456789'' = {}"
  shows "sublist xs (showInt i @ rest) \<longleftrightarrow> sublist xs rest"
proof
  assume "sublist xs (showInt i @ rest)"
  then consider "sublist xs (showInt i)" | "sublist xs rest"
    | xs1 xs2 where "xs = xs1 @ xs2" "suffix xs1 (showInt i)" "prefix xs2 rest"
    by (auto simp add: sublist_append)
  then show "sublist xs rest"
  proof cases
    case 1
    then have "set xs \<subseteq> set ''-0123456789''"
      using set_mono_sublist showInt_chars by blast
    with assms show ?thesis
      by (cases xs) auto
  next
    case 2
    then show ?thesis .
  next
    case 3
    show ?thesis
    proof (cases xs1)
      case Nil
      with 3 show ?thesis by (simp add: prefix_imp_sublist)
    next
      case (Cons c cs)
      with 3 have "c \<in> set (showInt i)"
        using set_mono_suffix [of xs1 "showInt i"] by auto
      then have "c \<in> set ''-0123456789''"
        using showInt_chars by blast
      moreover have "c \<in> set xs"
        using 3 Cons by simp
      ultimately show ?thesis
        using assms by blast
    qed
  qed
next
  assume "sublist xs rest"
  then show "sublist xs (showInt i @ rest)"
    by (simp add: sublist_append)
qed

lemma marker_past_number [simp]:
  "sublist ''API request failed'' (showInt i @ rest) = sublist ''API request failed'' rest"
  by (rule sublist_past_number) simp_all

lemma not_found_past_number [simp]:
  "sublist ''not found'' (showInt i @ rest) = sublist ''not found'' rest"
  by (rule sublist_past_number) simp_all

lemma marker_in_number [simp]: "\<not> sublist ''API request failed'' (showInt i)"
  using marker_past_number [of i "[]"] by simp

lemma not_found_in_number [simp]: "\<not> sublist ''not found'' (showInt i)"
  using not_found_past_number [of i "[]"] by simp


text \<open>Where the marker in a gateway error can come from.\<close>

lemma FetchCountryName_marker:
  assumes "FetchCountryName w iso2 = Inl (Errorf err)" and "Contains err marker"
  shows "Contains (foreignText (getCountryName w (''http://129.241.150.113:8080/v3.1/alpha/'' @ iso2))) marker
         \<or> Contains iso2 marker"
proof (cases "getCountryName w (''http://129.241.150.113:8080/v3.1/alpha/'' @ iso2)")
  case (RequestError e)
  with assms show ?thesis
    by (clarsimp simp add: FetchCountryName_def Contains_def marker_def sublist_Cons_right)
next
  case (TransportError e)
  with assms show ?thesis
    by (clarsimp simp add: FetchCountryName_def Contains_def marker_def sublist_Cons_right)
next
  case (Response StatusCode respBody)
  show ?thesis
  proof (cases "StatusCode = 200")
    case False
    with Response assms show ?thesis
      by (clarsimp simp add: FetchCountryName_def Contains_def marker_def sublist_Cons_right)
  next
    case True
    with Response assms show ?thesis
      by (cases respBody)
         (auto simp add: FetchCountryName_def Contains_def marker_def sublist_Cons_right
            split: list.splits if_splits)
  qed
qed

lemma FetchCities_marker:
  assumes "FetchCities w countryName limit = Inl (Errorf err)" and "Contains err marker"
  shows "Contains (foreignText (postCities w countryName)) marker \<or> Contains countryName marker"
proof (cases "postCities w countryName")
  case (RequestError e)
  with assms show ?thesis
    by (clarsimp simp add: FetchCities_def Contains_def marker_def sublist_Cons_right)
next
  case (TransportError e)
  with assms show ?thesis
    by (clarsimp simp add: FetchCities_def Contains_def marker_def sublist_Cons_right)
next
  case (Response StatusCode respBody)
  show ?thesis
  proof (cases "StatusCode = 200")
    case False
    with Response assms show ?thesis
      by (clarsimp simp add: FetchCities_def Contains_def marker_def sublist_Cons_right)
  next
    case True
    with Response assms show ?thesis
      by (cases respBody)
         (auto simp add: FetchCities_def Contains_def marker_def sublist_Cons_right
            split: if_splits)
  qed
qed

lemma FetchCountryInfo_marker:
  assumes "FetchCountryInfo w countryCode limit = Inl (Errorf err)" and "Contains err marker"
  shows "Contains (foreignText (getCountryData w (''http://129.241.150.113:8080/v3.1/alpha/'' @ countryCode))) marker
         \<or> Contains countryCode marker"
proof (cases "getCountryData w (''http://129.241.150.113:8080/v3.1/alpha/'' @ countryCode)")
  case (RequestError e)
  with assms show ?thesis
    by (clarsimp simp add: FetchCountryInfo_def Contains_def marker_def sublist_Cons_right)
next
  case (TransportError e)
  with assms show ?thesis
    by (clarsimp simp add: FetchCountryInfo_def Contains_def marker_def sublist_Cons_right)
next
  case (Response StatusCode respBody)
  show ?thesis
  proof (cases "StatusCode = 200")
    case False
    with Response assms show ?thesis
      by (clarsimp simp add: FetchCountryInfo_def Contains_def marker_def sublist_Cons_right)
  next
    case True
    show ?thesis
    proof (cases respBody)
      case (ReadError e)
      with True Response assms show ?thesis
        by (clarsimp simp add: FetchCountryInfo_def Contains_def marker_def sublist_Cons_right)
    next
      case (DecodeError e)
      with True Response assms show ?thesis
        by (clarsimp simp add: FetchCountryInfo_def Contains_def marker_def sublist_Cons_right)
    next
      case (Decoded data')
      show ?thesis
      proof (cases data')
        case Nil
        with Decoded True Response assms show ?thesis
          by (clarsimp simp add: FetchCountryInfo_def Contains_def marker_def sublist_Cons_right)
      next
        case (Cons country rest)
        obtain name ok where name: "extractString country [''name'', ''common''] = (name, ok)"
          by (cases "extractString country [''name'', ''common'']")
        show ?thesis
        proof (cases ok)
          case False
          with name Cons Decoded True Response assms(1) have "err = ''country name not found''"
            by (simp add: FetchCountryInfo_def)
          with assms(2) show ?thesis
            by (simp add: Contains_def marker_def sublist_Cons_right)
        next
          case ok: True
          with name Cons Decoded True Response assms(1) show ?thesis
            by (simp add: FetchCountryInfo_def split: sum.splits error.splits)
        qed
      qed
    qed
  qed
qed


lemma FetchCountryName_no_Panic: "FetchCountryName w iso2 \<noteq> Inl (Panic p)"
  by (simp add: FetchCountryName_def split: http.splits body.splits list.splits)

lemma FetchPopulationData_accepted:
  assumes "\<not> (endYear < startYear \<and> endYear \<noteq> 0)"
  shows "FetchPopulationData w iso2 startYear endYear =
     (case FetchCountryName w iso2 of
        Inl (Errorf err) \<Rightarrow> Inl (Errorf (''failed to get country name: '' @ err))
      | Inl (Panic p) \<Rightarrow> Inl (Panic p)
      | Inr countryName \<Rightarrow>
         (case postPopulation w countryName of
            RequestError err \<Rightarrow> Inl (Errorf (''failed to create JSON request: '' @ err))
          | TransportError err \<Rightarrow> Inl (Errorf (''failed to send request: '' @ err))
          | Response StatusCode respBody \<Rightarrow>
              if StatusCode \<noteq> 200
              then Inl (Errorf (''population API returned status '' @ showInt StatusCode))
              else (case respBody of
                  ReadError err \<Rightarrow>
                    Inl (Errorf (''failed to read Population API response: '' @ err))
                | DecodeError err \<Rightarrow>
                    Inl (Errorf (''failed to decode Population API response: '' @ err))
                | Decoded apiResponse \<Rightarrow>
                    if Error apiResponse
                    then Inl (Errorf (''population API returned an error: '' @ Msg apiResponse))
                    else (case PopulationCounts (Data apiResponse) of
                        None \<Rightarrow>
                          Inl (Errorf (''no population data found for country: '' @ countryName))
                      | Some populationData \<Rightarrow>
                          (case filterLoop startYear endYear populationData ([], 0, 0) of
                            (filteredCounts, total', count) \<Rightarrow>
                              Inr \<lparr>Mean = (if count > 0 then total' sdiv count else 0),
                                   Values = filteredCounts\<rparr>)))))"
  unfolding FetchPopulationData_def using assms by (simp only: if_False)

lemma FetchPopulationData_marker:
  assumes failed: "FetchPopulationData w iso2 startYear endYear = Inl (Errorf err)"
    and marked: "Contains err marker"
  shows "Contains (foreignText (getCountryName w (''http://129.241.150.113:8080/v3.1/alpha/'' @ iso2))) marker
     \<or> Contains iso2 marker
     \<or> (\<exists>countryName. FetchCountryName w iso2 = Inr countryName
          \<and> (Contains countryName marker
             \<or> Contains (foreignText (postPopulation w countryName)) marker
             \<or> (\<exists>apiResponse. postPopulation w countryName = Response 200 (Decoded apiResponse)
                   \<and> Contains (Msg apiResponse) marker)))"
proof (cases "endYear < startYear \<and> endYear \<noteq> 0")
  case True
  with failed marked show ?thesis
    by (clarsimp simp add: FetchPopulationData_def Contains_def marker_def sublist_Cons_right)
next
  case False
  note accepted = FetchPopulationData_accepted [OF False, of w iso2]
  show ?thesis
  proof (cases "FetchCountryName w iso2")
    case (Inl e)
    show ?thesis
    proof (cases e)
      case (Errorf inner)
      with Inl failed have "err = ''failed to get country name: '' @ inner"
        by (simp add: accepted)
      with marked have "Contains inner marker"
        by (simp add: Contains_def marker_def sublist_Cons_right)
      with Inl Errorf show ?thesis
        using FetchCountryName_marker [of w iso2 inner] by blast
    next
      case (Panic p)
      with Inl show ?thesis
        using FetchCountryName_no_Panic [of w iso2 p] by simp
    qed
  next
    case (Inr countryName)
    have "Contains countryName marker
        \<or> Contains (foreignText (postPopulation w countryName)) marker
        \<or> (\<exists>apiResponse. postPopulation w countryName = Response 200 (Decoded apiResponse)
              \<and> Contains (Msg apiResponse) marker)"
    proof (cases "postPopulation w countryName")
      case (RequestError e)
      with Inr failed [unfolded accepted] marked show ?thesis
        by (clarsimp simp add: Contains_def marker_def sublist_Cons_right)
    next
      case (TransportError e)
      with Inr failed [unfolded accepted] marked show ?thesis
        by (clarsimp simp add: Contains_def marker_def sublist_Cons_right)
    next
      case (Response StatusCode respBody)
      show ?thesis
      proof (cases "StatusCode = 200")
        case False
        with Response Inr failed [unfolded accepted] marked show ?thesis
          by (clarsimp simp add: Contains_def marker_def sublist_Cons_right)
      next
        case True
        show ?thesis
        proof (cases respBody)
          case (ReadError e)
          with True Response Inr failed [unfolded accepted] marked show ?thesis
            by (clarsimp simp add: Contains_def marker_def sublist_Cons_right)
        next
          case (DecodeError e)
          with True Response Inr failed [unfolded accepted] marked show ?thesis
            by (clarsimp simp add: Contains_def marker_def sublist_Cons_right)
        next
          case (Decoded apiResponse)
          show ?thesis
          proof (cases "Error apiResponse")
            case True
            with Decoded \<open>StatusCode = 200\<close> Response Inr failed [unfolded accepted] marked show ?thesis
              by (clarsimp simp add: Contains_def marker_def sublist_Cons_right)
          next
            case False
            with Decoded \<open>StatusCode = 200\<close> Response Inr failed [unfolded accepted] marked show ?thesis
              by (cases "PopulationCounts (Data apiResponse)")
                 (clarsimp simp add: Contains_def marker_def sublist_Cons_right
                    split: prod.splits)+
          qed
        qed
      qed
    qed
    with Inr show ?thesis by blast
  qed
qed

lemma matchISO2_no_marker: "matchISO2 iso2 \<Longrightarrow> \<not> Contains iso2 marker"
proof
  assume "matchISO2 iso2" and "Contains iso2 marker"
  then have "length iso2 = 2" and "length marker \<le> length iso2"
    using sublist_length_le [of marker iso2] by (simp_all add: matchISO2_def Contains_def)
  then show False
    by (simp add: marker_def)
qed

text \<open>An upstream status other than 200 always ends in the handlers' 500 branch.\<close>

lemma countryInfoReply_status:
  assumes "getCountryData w (''http://129.241.150.113:8080/v3.1/alpha/'' @ countryCode)
             = Response StatusCode respBody"
    and "StatusCode \<noteq> 200"
  shows "countryInfoReply (FetchCountryInfo w countryCode limit)
           = HttpError ''internal server error while fetching data.'' 500"
  using assms
  by (simp add: FetchCountryInfo_def countryInfoReply_def Contains_def sublist_Cons_right)

lemma populationReply_name_status:
  assumes "startYear \<le> endYear \<or> endYear = 0"
    and "getCountryName w (''http://129.241.150.113:8080/v3.1/alpha/'' @ iso2)
           = Response StatusCode respBody"
    and "StatusCode \<noteq> 200"
  shows "populationReply (FetchPopulationData w iso2 startYear endYear)
           = HttpError ''Internal server error while fetching population data.'' 500"
proof -
  have "FetchCountryName w iso2 = Inl (Errorf (''country API returned status '' @ showInt StatusCode))"
    using assms by (simp add: FetchCountryName_def)
  moreover have "\<not> (endYear < startYear \<and> endYear \<noteq> 0)"
    using assms(1) by auto
  ultimately have "FetchPopulationData w iso2 startYear endYear
      = Inl (Errorf (''failed to get country name: '' @ ''country API returned status ''
               @ showInt StatusCode))"
    by (simp add: FetchPopulationData_accepted)
  then show ?thesis
    by (simp add: populationReply_def Contains_def sublist_Cons_right)
qed

lemma populationReply_population_status:
  assumes "startYear \<le> endYear \<or> endYear = 0"
    and "FetchCountryName w iso2 = Inr countryName"
    and "postPopulation w countryName = Response StatusCode respBody"
    and "StatusCode \<noteq> 200"
  shows "populationReply (FetchPopulationData w iso2 startYear endYear)
           = HttpError ''Internal server error while fetching population data.'' 500"
proof -
  have "\<not> (endYear < startYear \<and> endYear \<noteq> 0)"
    using assms(1) by auto
  then have "FetchPopulationData w iso2 startYear endYear
      = Inl (Errorf (''population API returned status '' @ showInt StatusCode))"
    using assms(2-4) by (simp add: FetchPopulationData_accepted)
  then show ?thesis
    by (simp add: populationReply_def Contains_def sublist_Cons_right)
qed

lemma reply_502:
  "statusOf (countryInfoReply info) = Some 502
     \<Longrightarrow> \<exists>err. info = Inl (Errorf err) \<and> Contains err marker"
  "statusOf (populationReply report) = Some 502
     \<Longrightarrow> \<exists>err. report = Inl (Errorf err) \<and> Contains err marker"
  by (auto simp add: countryInfoReply_def populationReply_def marker_def
      split: sum.splits error.splits if_splits)

lemma citiesFailed_status: "StatusCode \<noteq> 200 \<Longrightarrow> citiesFailed (Response StatusCode respBody)"
  by (cases respBody) simp_all

text \<open>A status other than 200 from the cities provider is not surfaced: the error of
  \<^verbatim>\<open>FetchCities\<close> is dropped for the placeholder and the handler answers 200.\<close>

lemma countryInfoReply_cities_status:
  assumes meta: "getCountryData w (''http://129.241.150.113:8080/v3.1/alpha/'' @ countryCode)
                   = Response 200 (Decoded (country # rest))"
    and name: "extractString country [''name'', ''common''] = (name, True)"
    and answer: "postCities w name = Response StatusCode respBody"
    and status: "StatusCode \<noteq> 200"
  shows "\<exists>info. countryInfoReply (FetchCountryInfo w countryCode limit) = JsonBody info
           \<and> Cities info = [''City data not available'']"
proof -
  have "citiesFailed (postCities w name)"
    using citiesFailed_status [OF status, of respBody] by (simp only: answer)
  from FetchCities_failed [OF this, of limit]
  obtain err where err: "FetchCities w name limit = Inl (Errorf err)" ..
  then have no_panic: "FetchCities w name limit \<noteq> Inl (Panic p)" for p
    by simp
  show ?thesis
    by (simp add: FetchCountryInfo_ok [OF meta name no_panic] err countryInfoReply_def)
qed

text \<open>
  C3 (as amended). The fixed texts of the gateway's error messages hold neither
  \<^verbatim>\<open>API request failed\<close> nor anything that completes it: an error of \<^verbatim>\<open>FetchCountryInfo\<close>,
  \<^verbatim>\<open>FetchCities\<close>, \<^verbatim>\<open>FetchCountryName\<close> or \<^verbatim>\<open>FetchPopulationData\<close> contains the marker only
  when text from outside does, that is the text of the wrapped library error, the
  country code or display name, or the population provider's message; a valid ISO2 code
  never does; and the handlers answer 502 for no outcome but an error with the marker.
  A response with a status other than 200 from the metadata provider (to
  either gateway call) or from the population provider makes the handlers answer 500.
  A status other than 200 from the cities provider reaches no handler: the record is
  returned with the placeholder and the answer is 200.
\<close>

theorem gateway_marker_origin:
  "(FetchCountryInfo w countryCode limit = Inl (Errorf err) \<and> Contains err marker \<longrightarrow>
      Contains (foreignText (getCountryData w (''http://129.241.150.113:8080/v3.1/alpha/'' @ countryCode))) marker
      \<or> Contains countryCode marker)
   \<and> (FetchCities w countryName limit = Inl (Errorf err) \<and> Contains err marker \<longrightarrow>
      Contains (foreignText (postCities w countryName)) marker \<or> Contains countryName marker)
   \<and> (FetchCountryName w iso2 = Inl (Errorf err) \<and> Contains err marker \<longrightarrow>
      Contains (foreignText (getCountryName w (''http://129.241.150.113:8080/v3.1/alpha/'' @ iso2))) marker
      \<or> Contains iso2 marker)
   \<and> (FetchPopulationData w iso2 startYear endYear = Inl (Errorf err) \<and> Contains err marker \<longrightarrow>
      Contains (foreignText (getCountryName w (''http://129.241.150.113:8080/v3.1/alpha/'' @ iso2))) marker
      \<or> Contains iso2 marker
      \<or> (\<exists>name. FetchCountryName w iso2 = Inr name
           \<and> (Contains name marker
              \<or> Contains (foreignText (postPopulation w name)) marker
              \<or> (\<exists>apiResponse. postPopulation w name = Response 200 (Decoded apiResponse)
                    \<and> Contains (Msg apiResponse) marker))))
   \<and> (matchISO2 iso2 \<longrightarrow> \<not> Contains iso2 marker)
   \<and> (\<forall>StatusCode respBody.
         getCountryData w (''http://129.241.150.113:8080/v3.1/alpha/'' @ countryCode)
           = Response StatusCode respBody \<and> StatusCode \<noteq> 200 \<longrightarrow>
         countryInfoReply (FetchCountryInfo w countryCode limit)
           = HttpError ''internal server error while fetching data.'' 500)
   \<and> (\<forall>StatusCode respBody.
         (startYear \<le> endYear \<or> endYear = 0)
         \<and> getCountryName w (''http://129.241.150.113:8080/v3.1/alpha/'' @ iso2)
             = Response StatusCode respBody \<and> StatusCode \<noteq> 200 \<longrightarrow>
         populationReply (FetchPopulationData w iso2 startYear endYear)
           = HttpError ''Internal server error while fetching population data.'' 500)
   \<and> (\<forall>StatusCode respBody name.
         (startYear \<le> endYear \<or> endYear = 0)
         \<and> FetchCountryName w iso2 = Inr name
         \<and> postPopulation w name = Response StatusCode respBody \<and> StatusCode \<noteq> 200 \<longrightarrow>
         populationReply (FetchPopulationData w iso2 startYear endYear)
           = HttpError ''Internal server error while fetching population data.'' 500)
   \<and> (\<forall>StatusCode respBody country rest name.
         getCountryData w (''http://129.241.150.113:8080/v3.1/alpha/'' @ countryCode)
           = Response 200 (Decoded (country # rest))
         \<and> extractString country [''name'', ''common''] = (name, True)
         \<and> postCities w name = Response StatusCode respBody \<and> StatusCode \<noteq> 200 \<longrightarrow>
         (\<exists>info. countryInfoReply (FetchCountryInfo w countryCode limit) = JsonBody info
            \<and> Cities info = [''City data not available'']))
   \<and> (statusOf (countryInfoReply infoOutcome) = Some 502 \<longrightarrow>
         (\<exists>err'. infoOutcome = Inl (Errorf err') \<and> Contains err' marker))
   \<and> (statusOf (populationReply populationOutcome) = Some 502 \<longrightarrow>
         (\<exists>err'. populationOutcome = Inl (Errorf err') \<and> Contains err' marker))"
proof (intro conjI allI impI)
  assume "FetchCountryInfo w countryCode limit = Inl (Errorf err) \<and> Contains err marker"
  then show "Contains (foreignText (getCountryData w (''http://129.241.150.113:8080/v3.1/alpha/'' @ countryCode))) marker
      \<or> Contains countryCode marker"
    using FetchCountryInfo_marker [of w countryCode limit err] by simp
next
  assume "FetchCities w countryName limit = Inl (Errorf err) \<and> Contains err marker"
  then show "Contains (foreignText (postCities w countryName)) marker \<or> Contains countryName marker"
    using FetchCities_marker [of w countryName limit err] by simp
next
  assume "FetchCountryName w iso2 = Inl (Errorf err) \<and> Contains err marker"
  then show "Contains (foreignText (getCountryName w (''http://129.241.150.113:8080/v3.1/alpha/'' @ iso2))) marker
      \<or> Contains iso2 marker"
    using FetchCountryName_marker [of w iso2 err] by simp
next
  assume "FetchPopulationData w iso2 startYear endYear = Inl (Errorf err) \<and> Contains err marker"
  then show "Contains (foreignText (getCountryName w (''http://129.241.150.113:8080/v3.1/alpha/'' @ iso2))) marker
      \<or> Contains iso2 marker
      \<or> (\<exists>name. FetchCountryName w iso2 = Inr name
           \<and> (Contains name marker
              \<or> Contains (foreignText (postPopulation w name)) marker
              \<or> (\<exists>apiResponse. postPopulation w name = Response 200 (Decoded apiResponse)
                    \<and> Contains (Msg apiResponse) marker)))"
    using FetchPopulationData_marker [of w iso2 startYear endYear err] by simp
next
  assume "matchISO2 iso2"
  then show "\<not> Contains iso2 marker"
    by (rule matchISO2_no_marker)
next
  fix StatusCode respBody
  assume "getCountryData w (''http://129.241.150.113:8080/v3.1/alpha/'' @ countryCode)
           = Response StatusCode respBody \<and> StatusCode \<noteq> 200"
  then show "countryInfoReply (FetchCountryInfo w countryCode limit)
           = HttpError ''internal server error while fetching data.'' 500"
    using countryInfoReply_status [of w countryCode StatusCode respBody limit] by simp
next
  fix StatusCode respBody
  assume "(startYear \<le> endYear \<or> endYear = 0)
         \<and> getCountryName w (''http://129.241.150.113:8080/v3.1/alpha/'' @ iso2)
             = Response StatusCode respBody \<and> StatusCode \<noteq> 200"
  then show "populationReply (FetchPopulationData w iso2 startYear endYear)
           = HttpError ''Internal server error while fetching population data.'' 500"
    using populationReply_name_status [of startYear endYear w iso2 StatusCode respBody] by simp
next
  fix StatusCode respBody name
  assume "(startYear \<le> endYear \<or> endYear = 0)
         \<and> FetchCountryName w iso2 = Inr name
         \<and> postPopulation w name = Response StatusCode respBody \<and> StatusCode \<noteq> 200"
  then show "populationReply (FetchPopulationData w iso2 startYear endYear)
           = HttpError ''Internal server error while fetching population data.'' 500"
    using populationReply_population_status [of startYear endYear w iso2 name StatusCode respBody]
    by simp
next
  fix StatusCode respBody country rest name
  assume "getCountryData w (''http://129.241.150.113:8080/v3.1/alpha/'' @ countryCode)
           = Response 200 (Decoded (country # rest))
         \<and> extractString country [''name'', ''common''] = (name, True)
         \<and> postCities w name = Response StatusCode respBody \<and> StatusCode \<noteq> 200"
  then have meta: "getCountryData w (''http://129.241.150.113:8080/v3.1/alpha/'' @ countryCode)
           = Response 200 (Decoded (country # rest))"
    and name: "extractString country [''name'', ''common''] = (name, True)"
    and answer: "postCities w name = Response StatusCode respBody"
    and status: "StatusCode \<noteq> 200"
    by simp_all
  show "\<exists>info. countryInfoReply (FetchCountryInfo w countryCode limit) = JsonBody info
            \<and> Cities info = [''City data not available'']"
    by (rule countryInfoReply_cities_status [OF meta name answer status])
next
  assume "statusOf (countryInfoReply infoOutcome) = Some 502"
  then show "\<exists>err'. infoOutcome = Inl (Errorf err') \<and> Contains err' marker"
    by (rule reply_502)
next
  assume "statusOf (populationReply populationOutcome) = Some 502"
  then show "\<exists>err'. populationOutcome = Inl (Errorf err') \<and> Contains err' marker"
    by (rule reply_502)
qed

theorem gateway_marker_origin_witness:
  "countryInfoReply (FetchCountryInfo (metadataOnly norway) ''XX'' 10)
     = HttpError ''internal server error while fetching data.'' 500
   \<and> populationReply (FetchPopulationData indiaWorld ''NO'' 0 0)
     = HttpError ''Internal server error while fetching population data.'' 500
   \<and> (\<exists>info. countryInfoReply (FetchCountryInfo citiesDownWorld ''NO'' 10) = JsonBody info
         \<and> Cities info = [''City data not available''])"
proof -
  have data: "getCountryData (metadataOnly norway) (''http://129.241.150.113:8080/v3.1/alpha/'' @ ''XX'')
      = Response 404 (Decoded [])"
    by (simp add: metadataOnly_def offline_def)
  have name: "getCountryName indiaWorld (''http://129.241.150.113:8080/v3.1/alpha/'' @ ''NO'')
      = Response 404 (Decoded [])"
    by (simp add: indiaWorld_def offline_def)
  have found: "getCountryData citiesDownWorld (''http://129.241.150.113:8080/v3.1/alpha/'' @ ''NO'')
      = Response 200 (Decoded (norway # []))"
    by (simp add: citiesDownWorld_def metadataOnly_def offline_def)
  have cities: "postCities citiesDownWorld ''Norway''
      = Response 500 (Decoded \<lparr>CitiesError = False, CitiesData = []\<rparr>)"
    by (simp add: citiesDownWorld_def metadataOnly_def offline_def)
  note origin = gateway_marker_origin
    [THEN conjunct2, THEN conjunct2, THEN conjunct2, THEN conjunct2, THEN conjunct2]
  note swallowed =
    origin [THEN conjunct2, THEN conjunct2, THEN conjunct2, THEN conjunct1, rule_format]
  have "countryInfoReply (FetchCountryInfo (metadataOnly norway) ''XX'' 10)
     = HttpError ''internal server error while fetching data.'' 500"
    using origin [THEN conjunct1, rule_format, of "metadataOnly norway" "''XX''" 404 "Decoded []" 10]
      data by simp
  moreover have "populationReply (FetchPopulationData indiaWorld ''NO'' 0 0)
     = HttpError ''Internal server error while fetching population data.'' 500"
    using origin [THEN conjunct2, THEN conjunct1, rule_format,
        of 0 0 indiaWorld "''NO''" 404 "Decoded []"] name by simp
  moreover have "\<exists>info. countryInfoReply (FetchCountryInfo citiesDownWorld ''NO'' 10) = JsonBody info
         \<and> Cities info = [''City data not available'']"
  proof (rule swallowed)
    show "getCountryData citiesDownWorld (''http://129.241.150.113:8080/v3.1/alpha/'' @ ''NO'')
           = Response 200 (Decoded (norway # []))
         \<and> extractString norway [''name'', ''common''] = (''Norway'', True)
         \<and> postCities citiesDownWorld ''Norway''
             = Response 500 (Decoded \<lparr>CitiesError = False, CitiesData = []\<rparr>)
         \<and> (500::int) \<noteq> 200"
      using found norway_name cities by simp
  qed
  ultimately show ?thesis by simp
qed

text \<open>
  C3 as stated fails: when the population provider raises its error flag with the
  message \<^verbatim>\<open>API request failed\<close>, the error of \<^verbatim>\<open>FetchPopulationData\<close> contains that text
  and \<^verbatim>\<open>PopulationHandler\<close> answers 502.
\<close>

theorem gateway_marker_origin_counterexample:
  "FetchPopulationData markerWorld ''IN'' 0 0
     = Inl (Errorf ''population API returned an error: API request failed'')
   \<and> Contains ''population API returned an error: API request failed'' ''API request failed''
   \<and> PopulationHandler markerWorld \<lparr>Path = ''/countryinfo/v1/population/in'', LimitParam = []\<rparr>
     = HttpError ''Failed to retrieve data from the external API.'' 502"
proof -
  have name: "FetchCountryName markerWorld ''IN'' = Inr ''India''"
    by (simp add: FetchCountryName_def markerWorld_def indiaWorld_def offline_def)
  have answer: "postPopulation markerWorld ''India'' = Response 200
      (Decoded ((populationAnswer ''India'' None)\<lparr>Error := True, Msg := marker\<rparr>))"
    by (simp add: markerWorld_def indiaWorld_def offline_def)
  have fetched: "FetchPopulationData markerWorld ''IN'' 0 0
      = Inl (Errorf ''population API returned an error: API request failed'')"
    by (simp add: FetchPopulationData_def name answer populationAnswer_def marker_def)
  have marked: "Contains ''population API returned an error: API request failed'' ''API request failed''"
    by (simp add: Contains_def sublist_Cons_right)
  have unmatched: "\<not> Contains ''population API returned an error: API request failed'' ''not found''"
    by (simp add: Contains_def sublist_Cons_right)
  have upper: "ToUpper markerWorld ''in'' = ''IN''"
    by (simp add: markerWorld_def indiaWorld_def offline_def asciiUpper_def)
  have "PopulationHandler markerWorld \<lparr>Path = ''/countryinfo/v1/population/in'', LimitParam = []\<rparr>
     = HttpError ''Failed to retrieve data from the external API.'' 502"
    by (simp add: PopulationHandler_def TrimPrefix_def upper matchISO2_def isUpperAZ_def
        yearRange_def fetched populationReply_def marked unmatched)
  with fetched marked show ?thesis by simp
qed

subsection \<open>Failures the population endpoint reports as 500\<close>

lemma populationReply_reversed_range:
  assumes "endYear < startYear" and "endYear \<noteq> 0"
  shows "populationReply (FetchPopulationData w iso2 startYear endYear)
           = HttpError ''Internal server error while fetching population data.'' 500"
  using assms
  by (simp add: FetchPopulationData_def populationReply_def Contains_def sublist_Cons_right)

text \<open>
  C4 at the request \<^verbatim>\<open>/countryinfo/v1/population/in?limit=2020-2010\<close>: both years parse and
  lie within the bounds, the range is reversed, and the answer is 500, not 400. It is the
  same in a world where no upstream can be reached: no upstream is called.
\<close>

theorem PopulationHandler_reversed_range:
  "PopulationHandler indiaWorld
       \<lparr>Path = ''/countryinfo/v1/population/in'', LimitParam = ''2020-2010''\<rparr>
     = HttpError ''Internal server error while fetching population data.'' 500
   \<and> PopulationHandler offline
       \<lparr>Path = ''/countryinfo/v1/population/in'', LimitParam = ''2020-2010''\<rparr>
     = HttpError ''Internal server error while fetching population data.'' 500"
proof -
  have range: "yearRange w ''2020-2010'' = Inr (2020, 2010)" if "currentYear w = 2025" for w
    using that by (simp add: yearRange_def Atoi_def digitValue_def)
  have handled: "PopulationHandler w
       \<lparr>Path = ''/countryinfo/v1/population/in'', LimitParam = ''2020-2010''\<rparr>
     = HttpError ''Internal server error while fetching population data.'' 500"
    if "currentYear w = 2025" and "ToUpper w ''in'' = ''IN''" for w
    using that
    by (simp add: PopulationHandler_def TrimPrefix_def matchISO2_def isUpperAZ_def range
        populationReply_reversed_range)
  have "currentYear indiaWorld = 2025" and "ToUpper indiaWorld ''in'' = ''IN''"
    and "currentYear offline = 2025" and "ToUpper offline ''in'' = ''IN''"
    by (simp_all add: indiaWorld_def offline_def asciiUpper_def)
  then show ?thesis
    by (simp add: handled)
qed

text \<open>
  C5 at the request \<^verbatim>\<open>/countryinfo/v1/population/in\<close> when the population provider's
  answer has no \<^verbatim>\<open>populationCounts\<close>: the error text is
  \<^verbatim>\<open>no population data found for country: India\<close>, which does not contain
  \<^verbatim>\<open>not found\<close>, and the answer is 500, not 404.
\<close>

theorem PopulationHandler_no_history:
  "FetchPopulationData noHistoryWorld ''IN'' 0 0
     = Inl (Errorf ''no population data found for country: India'')
   \<and> PopulationHandler noHistoryWorld \<lparr>Path = ''/countryinfo/v1/population/in'', LimitParam = []\<rparr>
     = HttpError ''Internal server error while fetching population data.'' 500"
proof -
  have name: "FetchCountryName noHistoryWorld ''IN'' = Inr ''India''"
    by (simp add: FetchCountryName_def noHistoryWorld_def indiaWorld_def offline_def)
  have answer: "postPopulation noHistoryWorld ''India''
      = Response 200 (Decoded (populationAnswer ''India'' None))"
    by (simp add: noHistoryWorld_def indiaWorld_def offline_def)
  have fetched: "FetchPopulationData noHistoryWorld ''IN'' 0 0
      = Inl (Errorf ''no population data found for country: India'')"
    by (simp add: FetchPopulationData_def name answer populationAnswer_def)
  have upper: "ToUpper noHistoryWorld ''in'' = ''IN''"
    by (simp add: noHistoryWorld_def indiaWorld_def offline_def asciiUpper_def)
  have "PopulationHandler noHistoryWorld \<lparr>Path = ''/countryinfo/v1/population/in'', LimitParam = []\<rparr>
     = HttpError ''Internal server error while fetching population data.'' 500"
    by (simp add: PopulationHandler_def TrimPrefix_def upper matchISO2_def isUpperAZ_def
        yearRange_def fetched populationReply_def Contains_def sublist_Cons_right)
  with fetched show ?thesis by simp
qed

end
